theory Spec2Isabelle
  imports Complex_Main
begin

section \<open>Rate limiter (internal/sdk.ts, createRateLimiter)\<close>

text \<open>
  The limiter is built on \<^verbatim>\<open>TSemaphore\<close> of the effect library: a transactional
  counter of permits with no upper bound.
  \<^item> \<^verbatim>\<open>TSemaphore.make(n)\<close> creates the counter with \<open>n\<close> permits;
  \<^item> \<^verbatim>\<open>acquireN(n)\<close> retries (the calling fibre is suspended) while fewer than \<open>n\<close>
    permits are available, and otherwise subtracts \<open>n\<close>;
  \<^item> \<^verbatim>\<open>releaseN(n)\<close> adds \<open>n\<close> to the counter, whatever its value;
  \<^item> \<^verbatim>\<open>withPermit(sem)(eff)\<close> is \<^verbatim>\<open>acquireN(1)\<close>, then \<open>eff\<close>, then
    \<^verbatim>\<open>releaseN(1)\<close> (the release is an \<^verbatim>\<open>ensuring\<close> finalizer of \<open>eff\<close>).
  Every transaction commits atomically, so a run of the limiter is a sequence of such
  steps. A suspended transaction is the value \<open>None\<close>.
\<close>

record TSemaphore =
  permits :: int

definition TSemaphore_make :: "int \<Rightarrow> TSemaphore" where
  "TSemaphore_make n = \<lparr>permits = n\<rparr>"

definition acquireN :: "int \<Rightarrow> TSemaphore \<Rightarrow> TSemaphore option" where
  "acquireN n s = (if permits s < n then None else Some (s\<lparr>permits := permits s - n\<rparr>))"

definition releaseN :: "int \<Rightarrow> TSemaphore \<Rightarrow> TSemaphore" where
  "releaseN n s = s\<lparr>permits := permits s + n\<rparr>"

definition withPermit :: "(TSemaphore \<Rightarrow> 'a \<times> TSemaphore) \<Rightarrow> TSemaphore \<Rightarrow> ('a \<times> TSemaphore) option" where
  "withPermit eff s =
     (case acquireN 1 s of
        None \<Rightarrow> None
      | Some s1 \<Rightarrow> (case eff s1 of (a, s2) \<Rightarrow> Some (a, releaseN 1 s2)))"

definition Effect_void :: "'s \<Rightarrow> unit \<times> 's" where
  "Effect_void s = ((), s)"

text \<open>
  \<^verbatim>\<open>Duration.millis(1000 / requestsPerSecond)\<close>: the quotient of JavaScript numbers is
  infinite when the divisor is zero.
\<close>

datatype duration = Millis rat | Infinite

definition refill_interval :: "rat \<Rightarrow> duration" where
  "refill_interval requestsPerSecond =
     (if requestsPerSecond = 0 then Infinite else Millis (1000 / requestsPerSecond))"

record RateLimiter =
  semaphore :: TSemaphore
  refillInterval :: duration

text \<open>
  \<^verbatim>\<open>createRateLimiter(requestsPerSecond, burst)\<close>; the client layer calls it with 3 and 10
  (10 is also the default of \<open>burst\<close>).
\<close>

definition createRateLimiter :: "rat \<Rightarrow> int \<Rightarrow> RateLimiter" where
  "createRateLimiter requestsPerSecond burst =
     \<lparr>semaphore = TSemaphore_make burst, refillInterval = refill_interval requestsPerSecond\<rparr>"

text \<open>
  One cycle of the forked refill daemon, after its sleep of \<open>refillInterval\<close> has elapsed:
  \<^verbatim>\<open>TSemaphore.releaseN(semaphore, 1)\<close>.
\<close>

definition refill :: "RateLimiter \<Rightarrow> RateLimiter" where
  "refill l = l\<lparr>semaphore := releaseN 1 (semaphore l)\<rparr>"

text \<open>The service's \<^verbatim>\<open>acquire: TSemaphore.withPermit(semaphore)(Effect.void)\<close>.\<close>

definition acquire :: "RateLimiter \<Rightarrow> RateLimiter option" where
  "acquire l =
     (case withPermit Effect_void (semaphore l) of
        None \<Rightarrow> None
      | Some (u, s) \<Rightarrow> Some (l\<lparr>semaphore := s\<rparr>))"

text \<open>A run of the limiter: refill cycles of the daemon and acquire calls, in any order.\<close>

datatype limiter_event = Refill | Acquire

fun limiter_run :: "limiter_event list \<Rightarrow> RateLimiter \<Rightarrow> RateLimiter option" where
  "limiter_run [] l = Some l"
| "limiter_run (Refill # es) l = limiter_run es (refill l)"
| "limiter_run (Acquire # es) l =
     (case acquire l of None \<Rightarrow> None | Some l' \<Rightarrow> limiter_run es l')"

definition available :: "RateLimiter \<Rightarrow> int" where
  "available l = permits (semaphore l)"

section \<open>Effects\<close>

text \<open>
  An effect of the effect library, run from a state of the world \<open>'w\<close>: it succeeds with a
  value, fails with a typed error, or dies with a defect (an exception thrown by the
  JavaScript inside it); \<open>None\<close> is a run for which there is no outcome here: it never
  completes, or it depends on a call into the platform outside the part modelled.
\<close>

datatype ('e, 'a) exit = Success 'a | Failure 'e | Die string

type_synonym ('w, 'e, 'a) effect = "'w \<Rightarrow> (('e, 'a) exit \<times> 'w) option"

section \<open>Pagination traversal (operations module, fetchAllPages)\<close>

text \<open>
  \<^verbatim>\<open>PaginatedList<T>\<close>, with the fields the traversal reads. The type declares
  \<open>next_cursor\<close> an \<^verbatim>\<open>Option.Option<string>\<close>, but the pages that the client returns are
  the result of \<^verbatim>\<open>JSON.parse(text) as T\<close>, a cast that decodes nothing: there the field
  holds what the body holds, a string or \<^verbatim>\<open>null\<close>, or is missing. So a cursor value is
  an \<^verbatim>\<open>Option\<close> or one of these raw values.
  \<^verbatim>\<open>Option.isSome(x)\<close> is \<^verbatim>\<open>x._tag === "Some"\<close>: false on a string, which has no such
  member, and a \<^verbatim>\<open>TypeError\<close> on \<^verbatim>\<open>null\<close> and \<^verbatim>\<open>undefined\<close> (the value \<open>None\<close>).
  \<^verbatim>\<open>Option.getOrNull\<close> is read on a \<^verbatim>\<open>Some\<close> only. The cursor argument of the fetch
  function is \<^verbatim>\<open>string | undefined\<close>, with \<open>None\<close> for \<^verbatim>\<open>undefined\<close>.
\<close>

datatype cursor_value =
  Option_some string | Option_none | Raw_string string | Raw_null | Raw_undefined

record 'a PaginatedList =
  results :: "'a list"
  next_cursor :: cursor_value
  has_more :: bool

definition Option_isSome :: "cursor_value \<Rightarrow> bool option" where
  "Option_isSome x =
     (case x of
        Option_some s \<Rightarrow> Some True
      | Option_none \<Rightarrow> Some False
      | Raw_string s \<Rightarrow> Some False
      | Raw_null \<Rightarrow> None
      | Raw_undefined \<Rightarrow> None)"

definition Option_getOrNull :: "cursor_value \<Rightarrow> string option" where
  "Option_getOrNull x = (case x of Option_some s \<Rightarrow> Some s | _ \<Rightarrow> None)"

text \<open>
  \<^verbatim>\<open>response.has_more && Option.isSome(response.next_cursor)\<close> reads the cursor only when
  \<open>has_more\<close> is true; an exception thrown inside the callback of \<^verbatim>\<open>Effect.flatMap\<close> is a
  defect.
\<close>

partial_function (option) fetchRecursive ::
  "(string option \<Rightarrow> ('w, 'e, 'a PaginatedList) effect) \<Rightarrow> string option \<Rightarrow> 'a list
     \<Rightarrow> ('w, 'e, 'a list) effect" where
  "fetchRecursive fetchPage cursor accumulated w =
     (case fetchPage cursor w of
        None \<Rightarrow> None
      | Some (Failure e, w') \<Rightarrow> Some (Failure e, w')
      | Some (Die d, w') \<Rightarrow> Some (Die d, w')
      | Some (Success response, w') \<Rightarrow>
          (let newAccumulated = accumulated @ results response in
           if has_more response then
             (case Option_isSome (next_cursor response) of
                None \<Rightarrow> Some (Die ''TypeError: cannot read _tag'', w')
              | Some is_some \<Rightarrow>
                  if is_some
                  then fetchRecursive fetchPage (Option_getOrNull (next_cursor response))
                         newAccumulated w'
                  else Some (Success newAccumulated, w'))
           else Some (Success newAccumulated, w')))"

definition fetchAllPages ::
  "(string option \<Rightarrow> ('w, 'e, 'a PaginatedList) effect) \<Rightarrow> ('w, 'e, 'a list) effect" where
  "fetchAllPages fetchPage = fetchRecursive fetchPage None []"

text \<open>
  Observing a fetch function. \<open>logged fetchPage\<close> is \<open>fetchPage\<close> with a log of the cursors
  it was called with, one entry per call. \<open>continues fetchPage cursor w ps\<close> says that,
  called first with \<open>cursor\<close> in world \<open>w\<close> and then with each page's cursor,
  \<open>fetchPage\<close> returns the pages \<open>ps\<close>, each with \<open>has_more\<close> true and a cursor on which
  \<^verbatim>\<open>Option.isSome\<close> holds; it yields the cursor and the world of the call that follows.
  \<open>scripted\<close> answers its successive calls from a list.
\<close>

definition logged ::
  "(string option \<Rightarrow> ('w, 'e, 'a) effect) \<Rightarrow> string option
     \<Rightarrow> ('w \<times> string option list, 'e, 'a) effect" where
  "logged fetchPage cursor = (\<lambda>(w, calls).
     map_option (\<lambda>(r, w'). (r, (w', calls @ [cursor]))) (fetchPage cursor w))"

definition page_cursor :: "'a PaginatedList \<Rightarrow> string option" where
  "page_cursor p = Option_getOrNull (next_cursor p)"

fun continues ::
  "(string option \<Rightarrow> ('w, 'e, 'a PaginatedList) effect) \<Rightarrow> string option \<Rightarrow> 'w
     \<Rightarrow> 'a PaginatedList list \<Rightarrow> (string option \<times> 'w) option" where
  "continues fetchPage cursor w [] = Some (cursor, w)"
| "continues fetchPage cursor w (p # ps) =
     (case fetchPage cursor w of
        Some (Success q, w') \<Rightarrow>
          (if q = p \<and> has_more p \<and> Option_isSome (next_cursor p) = Some True
           then continues fetchPage (page_cursor p) w' ps else None)
      | _ \<Rightarrow> None)"

fun scripted :: "string option \<Rightarrow> (('e, 'a) exit list, 'e, 'a) effect" where
  "scripted cursor [] = None"
| "scripted cursor (r # rs) = Some (r, rs)"

text \<open>
  The two pages of the scenario, with cursors as the type declares them, and as a list
  body of the API holds them once parsed.
\<close>

definition page_AB :: "string PaginatedList" where
  "page_AB = \<lparr>results = [''A'', ''B''], next_cursor = Option_some ''x'', has_more = True\<rparr>"

definition page_C :: "string PaginatedList" where
  "page_C = \<lparr>results = [''C''], next_cursor = Option_none, has_more = False\<rparr>"

definition raw_page_AB :: "string PaginatedList" where
  "raw_page_AB = \<lparr>results = [''A'', ''B''], next_cursor = Raw_string ''x'', has_more = True\<rparr>"

definition raw_page_C :: "string PaginatedList" where
  "raw_page_C = \<lparr>results = [''C''], next_cursor = Raw_null, has_more = False\<rparr>"

section \<open>JSON values and \<^verbatim>\<open>JSON.parse\<close>\<close>

text \<open>
  The values \<^verbatim>\<open>JSON.parse\<close> returns. A number is kept as its literal text (no
  arithmetic on numbers is modelled); an object is the list of its members in source
  order. A JavaScript string is represented by the byte string that holds its code
  units below 128 as they are and every other code point in its UTF-8 form (three bytes
  for a lone surrogate), so that equal strings have equal representations.
\<close>

datatype json =
    JNull
  | JBool bool
  | JNumber string
  | JString string
  | JArray "json list"
  | JObject "(string \<times> json) list"

datatype token =
  TLBrace | TRBrace | TLBracket | TRBracket | TColon | TComma
  | TStr string | TNum string | TTrue | TFalse | TNull

text \<open>
  The lexer of the JSON grammar (ECMA-404, as \<^verbatim>\<open>JSON.parse\<close> reads it): white space is
  space, tab, line feed and carriage return; a string may not hold a raw control
  character; after a backslash come a quote, a backslash, a slash, one of the letters
  b, f, n, r, t, or u with four hexadecimal digits, where an escaped high surrogate
  followed by an escaped low surrogate is one code point; a number is
  \<^verbatim>\<open>-? (0 | [1-9][0-9]*) (. [0-9]+)? ([eE] [+-]? [0-9]+)?\<close>.
\<close>

definition code_unit :: "char \<Rightarrow> nat" where
  "code_unit c = of_char c"

definition is_ws :: "char \<Rightarrow> bool" where
  "is_ws c = (c = CHR 0x20 \<or> c = CHR 0x09 \<or> c = CHR 0x0A \<or> c = CHR 0x0D)"

definition is_digit :: "char \<Rightarrow> bool" where
  "is_digit c = (48 \<le> code_unit c \<and> code_unit c \<le> 57)"

definition hex_value :: "char \<Rightarrow> nat option" where
  "hex_value c =
     (let n = code_unit c in
      if 48 \<le> n \<and> n \<le> 57 then Some (n - 48)
      else if 65 \<le> n \<and> n \<le> 70 then Some (n - 55)
      else if 97 \<le> n \<and> n \<le> 102 then Some (n - 87)
      else None)"

definition hex4 :: "string \<Rightarrow> nat option" where
  "hex4 s =
     (case map hex_value s of
        [Some a, Some b, Some c, Some d] \<Rightarrow> Some (((a * 16 + b) * 16 + c) * 16 + d)
      | _ \<Rightarrow> None)"

definition utf8 :: "nat \<Rightarrow> string" where
  "utf8 n =
     (if n < 128 then [char_of n]
      else if n < 2048 then [char_of (192 + n div 64), char_of (128 + n mod 64)]
      else if n < 65536 then
        [char_of (224 + n div 4096), char_of (128 + n div 64 mod 64), char_of (128 + n mod 64)]
      else
        [char_of (240 + n div 262144), char_of (128 + n div 4096 mod 64),
         char_of (128 + n div 64 mod 64), char_of (128 + n mod 64)])"

definition simple_escape :: "char \<Rightarrow> char option" where
  "simple_escape e =
     (if e = CHR 0x22 \<or> e = CHR 0x5C \<or> e = CHR ''/'' then Some e
      else if e = CHR ''b'' then Some (CHR 0x08)
      else if e = CHR ''f'' then Some (CHR 0x0C)
      else if e = CHR ''n'' then Some (CHR 0x0A)
      else if e = CHR ''r'' then Some (CHR 0x0D)
      else if e = CHR ''t'' then Some (CHR 0x09)
      else None)"

definition low_surrogate_escape :: "string \<Rightarrow> nat option" where
  "low_surrogate_escape s =
     (if take 2 s = [CHR 0x5C, CHR ''u''] then
        (case hex4 (take 4 (drop 2 s)) of
           None \<Rightarrow> None
         | Some m \<Rightarrow> if 56320 \<le> m \<and> m < 57344 then Some m else None)
      else None)"

fun lex_string :: "string \<Rightarrow> string \<Rightarrow> (string \<times> string) option" where
  "lex_string acc [] = None"
| "lex_string acc (c # cs) =
     (if c = CHR 0x22 then Some (rev acc, cs)
      else if c = CHR 0x5C then
        (case cs of
           [] \<Rightarrow> None
         | e # cs1 \<Rightarrow>
             if e = CHR ''u'' then
               (case hex4 (take 4 cs1) of
                  None \<Rightarrow> None
                | Some n \<Rightarrow>
                    (case (if 55296 \<le> n \<and> n < 56320 then low_surrogate_escape (drop 4 cs1) else None) of
                       Some m \<Rightarrow>
                         lex_string (rev (utf8 (65536 + (n - 55296) * 1024 + (m - 56320))) @ acc)
                           (drop 10 cs1)
                     | None \<Rightarrow> lex_string (rev (utf8 n) @ acc) (drop 4 cs1)))
             else
               (case simple_escape e of
                  None \<Rightarrow> None
                | Some x \<Rightarrow> lex_string (x # acc) cs1))
      else if code_unit c < 32 then None
      else lex_string (c # acc) cs)"

definition lex_digits :: "string \<Rightarrow> (string \<times> string) option" where
  "lex_digits s = (if takeWhile is_digit s = [] then None
                   else Some (takeWhile is_digit s, dropWhile is_digit s))"

definition lex_int :: "string \<Rightarrow> (string \<times> string) option" where
  "lex_int s =
     (case s of
        [] \<Rightarrow> None
      | d # r \<Rightarrow> if d = CHR ''0'' then Some ([d], r) else lex_digits s)"

definition lex_frac :: "string \<Rightarrow> (string \<times> string) option" where
  "lex_frac s =
     (case s of
        [] \<Rightarrow> Some ([], s)
      | d # r \<Rightarrow>
          if d = CHR ''.'' then map_option (\<lambda>(ds, r'). (d # ds, r')) (lex_digits r)
          else Some ([], s))"

definition lex_exp :: "string \<Rightarrow> (string \<times> string) option" where
  "lex_exp s =
     (case s of
        [] \<Rightarrow> Some ([], s)
      | e # r \<Rightarrow>
          if e = CHR ''e'' \<or> e = CHR ''E'' then
            (case r of
               [] \<Rightarrow> None
             | g # r1 \<Rightarrow>
                 if g = CHR ''+'' \<or> g = CHR ''-''
                 then map_option (\<lambda>(ds, r'). (e # g # ds, r')) (lex_digits r1)
                 else map_option (\<lambda>(ds, r'). (e # ds, r')) (lex_digits r))
          else Some ([], s))"

definition lex_number :: "string \<Rightarrow> (string \<times> string) option" where
  "lex_number s =
     (let (sign, s0) = (case s of [] \<Rightarrow> ([], s) | c # r \<Rightarrow> if c = CHR ''-'' then ([c], r) else ([], s)) in
      case lex_int s0 of
        None \<Rightarrow> None
      | Some (i, s1) \<Rightarrow>
          (case lex_frac s1 of
             None \<Rightarrow> None
           | Some (f, s2) \<Rightarrow>
               (case lex_exp s2 of
                  None \<Rightarrow> None
                | Some (x, s3) \<Rightarrow> Some (sign @ i @ f @ x, s3))))"

text \<open>Each token is shorter than the text it is read from, so the lexer terminates.\<close>

lemma lex_string_shorter: "lex_string acc s = Some (r, rest) \<Longrightarrow> length rest < length s"
proof (induction acc s rule: lex_string.induct)
  case (1 acc)
  then show ?case by simp
next
  case (2 acc c cs)
  show ?case
  proof (cases "c = CHR 0x22")
    case True
    with "2.prems" show ?thesis by simp
  next
    case quote: False
    show ?thesis
    proof (cases "c = CHR 0x5C")
      case False
      with quote "2.prems" have lt: "\<not> code_unit c < 32" and eq: "lex_string (c # acc) cs = Some (r, rest)"
        by (auto split: if_splits)
      from "2.IH"(4) [OF quote False lt eq] show ?thesis by simp
    next
      case True
      with quote "2.prems" obtain e cs1 where cs: "cs = e # cs1"
        by (cases cs) auto
      show ?thesis
      proof (cases "e = CHR ''u''")
        case False
        with quote True cs "2.prems" obtain x where x: "simple_escape e = Some x"
          and eq: "lex_string (x # acc) cs1 = Some (r, rest)"
          by (auto split: option.splits)
        from "2.IH"(3) [OF quote True cs False x eq] cs show ?thesis by simp
      next
        case u: True
        with quote True cs "2.prems" obtain n where n: "hex4 (take 4 cs1) = Some n"
          by (auto split: option.splits)
        let ?low = "if 55296 \<le> n \<and> n < 56320 then low_surrogate_escape (drop 4 cs1) else None"
        show ?thesis
        proof (cases ?low)
          case None
          with quote True cs u n "2.prems"
          have eq: "lex_string (rev (utf8 n) @ acc) (drop 4 cs1) = Some (r, rest)"
            by (simp split: if_splits)
          from "2.IH"(1) [OF quote True cs u n None eq] cs show ?thesis by simp
        next
          case (Some m)
          with quote True cs u n "2.prems"
          have eq: "lex_string (rev (utf8 (65536 + (n - 55296) * 1024 + (m - 56320))) @ acc) (drop 10 cs1)
                      = Some (r, rest)"
            by (simp split: if_splits)
          from "2.IH"(2) [OF quote True cs u n Some eq] cs show ?thesis by simp
        qed
      qed
    qed
  qed
qed

lemma lex_digits_shorter:
  assumes "lex_digits s = Some (r, rest)"
  shows "length rest < length s"
proof (cases s)
  case Nil
  with assms show ?thesis by (simp add: lex_digits_def)
next
  case (Cons d ds)
  with assms have "is_digit d" and "rest = dropWhile is_digit ds"
    by (auto simp: lex_digits_def split: if_splits)
  then show ?thesis
    using Cons length_dropWhile_le [of is_digit ds] by simp
qed

lemma lex_int_shorter:
  assumes "lex_int s = Some (r, rest)"
  shows "length rest < length s"
proof (cases s)
  case Nil
  with assms show ?thesis by (simp add: lex_int_def)
next
  case (Cons d ds)
  show ?thesis
  proof (cases "d = CHR ''0''")
    case True
    with assms Cons show ?thesis by (simp add: lex_int_def)
  next
    case False
    with assms Cons have "lex_digits s = Some (r, rest)" by (simp add: lex_int_def)
    then show ?thesis by (rule lex_digits_shorter)
  qed
qed

lemma lex_frac_shorter:
  assumes "lex_frac s = Some (r, rest)"
  shows "length rest \<le> length s"
proof (cases s)
  case Nil
  with assms show ?thesis by (simp add: lex_frac_def)
next
  case (Cons d ds)
  show ?thesis
  proof (cases "d = CHR ''.''")
    case True
    with assms Cons obtain x where "lex_digits ds = Some (x, rest)"
      by (auto simp: lex_frac_def)
    from lex_digits_shorter [OF this] Cons show ?thesis by simp
  next
    case False
    with assms Cons show ?thesis by (simp add: lex_frac_def)
  qed
qed

lemma lex_exp_shorter:
  assumes "lex_exp s = Some (r, rest)"
  shows "length rest \<le> length s"
proof (cases s)
  case Nil
  with assms show ?thesis by (simp add: lex_exp_def)
next
  case (Cons e t)
  show ?thesis
  proof (cases "e = CHR ''e'' \<or> e = CHR ''E''")
    case False
    with assms Cons show ?thesis by (simp add: lex_exp_def)
  next
    case True
    with assms Cons obtain g t1 where t: "t = g # t1"
      by (cases t) (auto simp: lex_exp_def)
    show ?thesis
    proof (cases "g = CHR ''+'' \<or> g = CHR ''-''")
      case sign: True
      with assms Cons True t obtain x where "lex_digits t1 = Some (x, rest)"
        by (auto simp: lex_exp_def)
      from lex_digits_shorter [OF this] Cons t show ?thesis by simp
    next
      case nosign: False
      with assms Cons True t obtain x where "lex_digits t = Some (x, rest)"
        by (auto simp: lex_exp_def)
      from lex_digits_shorter [OF this] Cons show ?thesis by simp
    qed
  qed
qed

lemma lex_number_shorter:
  assumes "lex_number s = Some (r, rest)"
  shows "length rest < length s"
proof -
  define s0 where "s0 = (case s of [] \<Rightarrow> s | c # t \<Rightarrow> if c = CHR ''-'' then t else s)"
  have s0: "length s0 \<le> length s"
    by (cases s) (auto simp: s0_def)
  have sg: "(case s of [] \<Rightarrow> ([], s) | c # t \<Rightarrow> if c = CHR ''-'' then ([c], t) else ([], s))
              = (case s of [] \<Rightarrow> [] | c # t \<Rightarrow> if c = CHR ''-'' then [c] else [], s0)"
    by (cases s) (auto simp: s0_def)
  from assms obtain i s1 f s2 x where
    "lex_int s0 = Some (i, s1)" "lex_frac s1 = Some (f, s2)" "lex_exp s2 = Some (x, rest)"
    unfolding lex_number_def sg by (auto split: option.splits)
  then show ?thesis
    using s0 lex_int_shorter [of s0 i s1] lex_frac_shorter [of s1 f s2] lex_exp_shorter [of s2 x rest]
    by simp
qed

function lex :: "string \<Rightarrow> token list option" where
  "lex [] = Some []"
| "lex (c # cs) =
     (if is_ws c then lex cs
      else if c = CHR ''{'' then map_option ((#) TLBrace) (lex cs)
      else if c = CHR ''}'' then map_option ((#) TRBrace) (lex cs)
      else if c = CHR ''['' then map_option ((#) TLBracket) (lex cs)
      else if c = CHR '']'' then map_option ((#) TRBracket) (lex cs)
      else if c = CHR '':'' then map_option ((#) TColon) (lex cs)
      else if c = CHR '','' then map_option ((#) TComma) (lex cs)
      else if c = CHR 0x22 then
        (case lex_string [] cs of
           None \<Rightarrow> None
         | Some (s, rest) \<Rightarrow> map_option ((#) (TStr s)) (lex rest))
      else if c = CHR ''-'' \<or> is_digit c then
        (case lex_number (c # cs) of
           None \<Rightarrow> None
         | Some (n, rest) \<Rightarrow> map_option ((#) (TNum n)) (lex rest))
      else if take 4 (c # cs) = ''true'' then map_option ((#) TTrue) (lex (drop 3 cs))
      else if take 5 (c # cs) = ''false'' then map_option ((#) TFalse) (lex (drop 4 cs))
      else if take 4 (c # cs) = ''null'' then map_option ((#) TNull) (lex (drop 3 cs))
      else None)"
  by pat_completeness auto
termination
proof (relation "measure length")
  fix c cs s rest x
  assume "lex_string [] cs = Some x" "(s, rest) = x"
  then have "lex_string [] cs = Some (s, rest)" by simp
  from lex_string_shorter [OF this] show "(rest, c # cs) \<in> measure length" by simp
next
  fix c cs n rest x
  assume "lex_number (c # cs) = Some x" "(n, rest) = x"
  then have "lex_number (c # cs) = Some (n, rest)" by simp
  from lex_number_shorter [OF this] show "(rest, c # cs) \<in> measure length" by simp
qed simp_all

text \<open>
  The parser is a pushdown automaton over the tokens: \<open>expect\<close> is what may come next,
  the stack holds the arrays and objects that are still open (their elements in
  reverse order, an object with the key whose value is awaited). \<open>None\<close> is the
  \<^verbatim>\<open>SyntaxError\<close> that \<^verbatim>\<open>JSON.parse\<close> throws.
\<close>

datatype frame = FArray "json list" | FObject "(string \<times> json) list" "string option"

datatype expect = NeedValue | AfterOpenArray | AfterOpenObject | NeedKey | NeedColon | AfterValue | Done json

fun complete :: "json \<Rightarrow> frame list \<Rightarrow> (expect \<times> frame list) option" where
  "complete v [] = Some (Done v, [])"
| "complete v (FArray vs # st) = Some (AfterValue, FArray (v # vs) # st)"
| "complete v (FObject ms (Some k) # st) = Some (AfterValue, FObject ((k, v) # ms) None # st)"
| "complete v (FObject ms None # st) = None"

definition start_value :: "token \<Rightarrow> frame list \<Rightarrow> (expect \<times> frame list) option" where
  "start_value t st =
     (case t of
        TStr s \<Rightarrow> complete (JString s) st
      | TNum n \<Rightarrow> complete (JNumber n) st
      | TTrue \<Rightarrow> complete (JBool True) st
      | TFalse \<Rightarrow> complete (JBool False) st
      | TNull \<Rightarrow> complete JNull st
      | TLBracket \<Rightarrow> Some (AfterOpenArray, FArray [] # st)
      | TLBrace \<Rightarrow> Some (AfterOpenObject, FObject [] None # st)
      | _ \<Rightarrow> None)"

definition close_array :: "frame list \<Rightarrow> (expect \<times> frame list) option" where
  "close_array st = (case st of FArray vs # st' \<Rightarrow> complete (JArray (rev vs)) st' | _ \<Rightarrow> None)"

definition close_object :: "frame list \<Rightarrow> (expect \<times> frame list) option" where
  "close_object st = (case st of FObject ms None # st' \<Rightarrow> complete (JObject (rev ms)) st' | _ \<Rightarrow> None)"

definition take_key :: "token \<Rightarrow> frame list \<Rightarrow> (expect \<times> frame list) option" where
  "take_key t st =
     (case (t, st) of
        (TStr k, FObject ms None # st') \<Rightarrow> Some (NeedColon, FObject ms (Some k) # st')
      | _ \<Rightarrow> None)"

definition parse_step :: "token \<Rightarrow> expect \<times> frame list \<Rightarrow> (expect \<times> frame list) option" where
  "parse_step t = (\<lambda>(e, st).
     case e of
       NeedValue \<Rightarrow> start_value t st
     | AfterOpenArray \<Rightarrow> if t = TRBracket then close_array st else start_value t st
     | AfterOpenObject \<Rightarrow> if t = TRBrace then close_object st else take_key t st
     | NeedKey \<Rightarrow> take_key t st
     | NeedColon \<Rightarrow> if t = TColon then Some (NeedValue, st) else None
     | AfterValue \<Rightarrow>
         (case st of
            FArray vs # st' \<Rightarrow>
              if t = TComma then Some (NeedValue, st)
              else if t = TRBracket then close_array st else None
          | FObject ms k # st' \<Rightarrow>
              if t = TComma then Some (NeedKey, st)
              else if t = TRBrace then close_object st else None
          | [] \<Rightarrow> None)
     | Done v \<Rightarrow> None)"

fun parse_tokens :: "token list \<Rightarrow> expect \<times> frame list \<Rightarrow> json option" where
  "parse_tokens [] s = (case s of (Done v, st) \<Rightarrow> Some v | _ \<Rightarrow> None)"
| "parse_tokens (t # ts) s = (case parse_step t s of None \<Rightarrow> None | Some s' \<Rightarrow> parse_tokens ts s')"

definition JSON_parse :: "string \<Rightarrow> json option" where
  "JSON_parse text = (case lex text of None \<Rightarrow> None | Some ts \<Rightarrow> parse_tokens ts (NeedValue, []))"

text \<open>
  Reading a member \<^verbatim>\<open>v.k\<close> of a parsed value, for the keys this client reads
  (\<^verbatim>\<open>code\<close>, \<^verbatim>\<open>message\<close>, \<^verbatim>\<open>request_id\<close>: no prototype defines them). On \<^verbatim>\<open>null\<close> the
  access throws a \<^verbatim>\<open>TypeError\<close> (the outer \<open>None\<close>); on an object the last member of
  that name counts; otherwise the result is \<^verbatim>\<open>undefined\<close> (the inner \<open>None\<close>).
\<close>

definition member :: "json \<Rightarrow> string \<Rightarrow> json option option" where
  "member v k =
     (case v of
        JNull \<Rightarrow> None
      | JObject ms \<Rightarrow> Some (map_of (rev ms) k)
      | _ \<Rightarrow> Some None)"

section \<open>Errors (operations module, NotionError)\<close>

text \<open>
  \<^verbatim>\<open>NotionError\<close> is a \<^verbatim>\<open>Schema.TaggedError\<close>: its constructor validates the fields
  against the schema (\<open>status\<close> a number, \<open>code\<close> one of the literals of
  \<^verbatim>\<open>NotionErrorCode\<close>, \<open>message\<close> a string, \<open>requestId\<close> a string or absent) and throws
  when they do not fit. \<open>NotionError_new\<close> is the constructor applied to values read from
  a parsed body, \<open>None\<close> when it throws.
\<close>

datatype NotionErrorCode =
    invalid_json | invalid_request_url | invalid_request | validation_error
  | missing_version | unauthorized | restricted_resource | object_not_found
  | conflict_error | rate_limited | internal_server_error | service_unavailable
  | database_connection_unavailable | gateway_timeout

definition NotionErrorCode_values :: "(string \<times> NotionErrorCode) list" where
  "NotionErrorCode_values =
     [(''invalid_json'', invalid_json),
      (''invalid_request_url'', invalid_request_url),
      (''invalid_request'', invalid_request),
      (''validation_error'', validation_error),
      (''missing_version'', missing_version),
      (''unauthorized'', unauthorized),
      (''restricted_resource'', restricted_resource),
      (''object_not_found'', object_not_found),
      (''conflict_error'', conflict_error),
      (''rate_limited'', rate_limited),
      (''internal_server_error'', internal_server_error),
      (''service_unavailable'', service_unavailable),
      (''database_connection_unavailable'', database_connection_unavailable),
      (''gateway_timeout'', gateway_timeout)]"

record NotionError =
  status :: int
  code :: NotionErrorCode
  message :: string
  requestId :: "string option"

definition NotionError_new :: "int \<Rightarrow> json option \<Rightarrow> json option \<Rightarrow> json option \<Rightarrow> NotionError option" where
  "NotionError_new st c m r =
     (case c of
        Some (JString cs) \<Rightarrow>
          (case map_of NotionErrorCode_values cs of
             None \<Rightarrow> None
           | Some k \<Rightarrow>
               (case m of
                  Some (JString ms) \<Rightarrow>
                    (case r of
                       None \<Rightarrow> Some \<lparr>status = st, code = k, message = ms, requestId = None\<rparr>
                     | Some (JString rs) \<Rightarrow>
                         Some \<lparr>status = st, code = k, message = ms, requestId = Some rs\<rparr>
                     | Some _ \<Rightarrow> None)
                | _ \<Rightarrow> None))
      | _ \<Rightarrow> None)"

text \<open>An error as the API reports it when the rate limit is exceeded.\<close>

definition rate_limit_error :: NotionError where
  "rate_limit_error =
     \<lparr>status = 429, code = rate_limited, message = ''Rate limited'', requestId = None\<rparr>"

section \<open>Parsing a response (internal/sdk.ts, parseResponse)\<close>

text \<open>
  The fields of the fetch \<^verbatim>\<open>Response\<close> that the client reads; \<open>body_text\<close> is the result
  of \<^verbatim>\<open>response.text()\<close>, \<open>None\<close> when that promise rejects. \<open>decode_error\<close> is the
  \<^verbatim>\<open>try\<close> block of the failure branch: \<open>None\<close> when \<^verbatim>\<open>JSON.parse\<close>, a member access or the
  constructor throws, which the \<^verbatim>\<open>catch\<close> block turns into the generic error. A failure
  yielded inside the generator ends it: the code after the branch runs only for a
  response that is ok.
\<close>

record Response =
  ok :: bool
  response_status :: int
  statusText :: string
  body_text :: "string option"

definition decode_error :: "Response \<Rightarrow> string \<Rightarrow> NotionError option" where
  "decode_error response txt =
     (case JSON_parse txt of
        None \<Rightarrow> None
      | Some error \<Rightarrow>
          (case (member error ''code'', member error ''message'', member error ''request_id'') of
             (Some c, Some m, Some r) \<Rightarrow> NotionError_new (response_status response) c m r
           | _ \<Rightarrow> None))"

definition parseResponse :: "Response \<Rightarrow> (NotionError, json) exit" where
  "parseResponse response =
     (case body_text response of
        None \<Rightarrow>
          Failure \<lparr>status = 0, code = internal_server_error,
                   message = ''Failed to read response body'', requestId = None\<rparr>
      | Some txt \<Rightarrow>
          if \<not> ok response then
            (case decode_error response txt of
               Some e \<Rightarrow> Failure e
             | None \<Rightarrow>
                 Failure \<lparr>status = response_status response, code = internal_server_error,
                          message = (if txt = [] then statusText response else txt),
                          requestId = None\<rparr>)
          else
            (case JSON_parse txt of
               Some v \<Rightarrow> Success v
             | None \<Rightarrow>
                 Failure \<lparr>status = response_status response, code = invalid_json,
                          message = ''Invalid JSON response'', requestId = None\<rparr>))"

section \<open>URLs (the platform's \<^verbatim>\<open>URL\<close> class)\<close>

text \<open>
  A call into the platform returns a value, throws an exception, or lies outside the
  part of the platform that is modelled; on \<open>Unmodelled\<close> the definitions say nothing
  about what the platform does.
\<close>

datatype 'a platform_result = Returns 'a | Throws | Unmodelled

definition map_result :: "('a \<Rightarrow> 'b) \<Rightarrow> 'a platform_result \<Rightarrow> 'b platform_result" where
  "map_result f r = (case r of Returns x \<Rightarrow> Returns (f x) | Throws \<Rightarrow> Throws | Unmodelled \<Rightarrow> Unmodelled)"

text \<open>
  \<^verbatim>\<open>new URL(path, base)\<close> follows the URL Standard (WHATWG). The part of the standard that
  this client exercises is modelled: a base \<^verbatim>\<open>http://host[:port]\<close> or
  \<^verbatim>\<open>https://host[:port]\<close>, the scheme in either case, followed by a path, a query and a
  fragment, where the host is a domain of labels of letters, digits and hyphens (the
  last label starting with a letter, no label in punycode form) or an IPv4 address of
  four decimal numbers written without leading zeros, and there are no credentials;
  and a reference with no scheme and no authority of its own. For these the parser's
  states are followed as the standard gives them: leading and trailing control
  characters and spaces are stripped and tabs and newlines removed; the host is put in
  lower case; a default port is dropped; in the path state a slash or backslash ends a
  segment, single-dot segments are skipped and double-dot segments remove the segment
  before them, and the other characters are percent-encoded by the state's encode set.
  \<open>Throws\<close> is the \<^verbatim>\<open>TypeError\<close> of an invalid URL: a base without a scheme, or a port that
  is not a number below 65536.

  The arguments are converted to scalar value strings first: a lone surrogate becomes
  the replacement character U+FFFD.
\<close>

definition replacement_character :: string where
  "replacement_character = [CHR 0xEF, CHR 0xBF, CHR 0xBD]"

fun USVString :: "string \<Rightarrow> string" where
  "USVString (a # b # c # cs) =
     (if a = CHR 0xED \<and> 160 \<le> code_unit b then replacement_character @ USVString cs
      else a # USVString (b # c # cs))"
| "USVString cs = cs"

record URL =
  url_scheme :: string
  url_host :: string
  url_port :: "nat option"
  url_path :: "string list"
  url_query :: "string option"
  url_fragment :: "string option"

definition is_lower :: "char \<Rightarrow> bool" where
  "is_lower c = (97 \<le> code_unit c \<and> code_unit c \<le> 122)"

definition is_upper :: "char \<Rightarrow> bool" where
  "is_upper c = (65 \<le> code_unit c \<and> code_unit c \<le> 90)"

definition is_alnum :: "char \<Rightarrow> bool" where
  "is_alnum c = (is_digit c \<or> is_lower c \<or> is_upper c)"

definition to_lower :: "char \<Rightarrow> char" where
  "to_lower c = (if is_upper c then char_of (code_unit c + 32) else c)"

definition hex_digit :: "nat \<Rightarrow> char" where
  "hex_digit n = (if n < 10 then char_of (48 + n) else char_of (55 + n))"

definition percent_encode :: "char \<Rightarrow> string" where
  "percent_encode c = [CHR ''%'', hex_digit (code_unit c div 16), hex_digit (code_unit c mod 16)]"

definition c0_control_or_space :: "char \<Rightarrow> bool" where
  "c0_control_or_space c = (code_unit c \<le> 32)"

definition tab_or_newline :: "char \<Rightarrow> bool" where
  "tab_or_newline c = (c = CHR 0x09 \<or> c = CHR 0x0A \<or> c = CHR 0x0D)"

text \<open>
  The input as the parser first rewrites it, and the percent-encode sets of the
  fragment, the (special) query and the path state.
\<close>

definition preprocess :: "string \<Rightarrow> string" where
  "preprocess s =
     filter (\<lambda>c. \<not> tab_or_newline c)
       (rev (dropWhile c0_control_or_space (rev (dropWhile c0_control_or_space s))))"

definition in_fragment_set :: "char \<Rightarrow> bool" where
  "in_fragment_set c =
     (code_unit c \<le> 32 \<or> code_unit c > 126 \<or> c = CHR 0x22 \<or> c = CHR ''<'' \<or> c = CHR ''>''
      \<or> c = CHR 0x60)"

definition in_query_set :: "char \<Rightarrow> bool" where
  "in_query_set c =
     (code_unit c \<le> 32 \<or> code_unit c > 126 \<or> c = CHR 0x22 \<or> c = CHR ''#'' \<or> c = CHR ''<''
      \<or> c = CHR ''>'' \<or> c = CHR 0x27)"

definition in_path_set :: "char \<Rightarrow> bool" where
  "in_path_set c =
     (code_unit c \<le> 32 \<or> code_unit c > 126 \<or> c = CHR 0x22 \<or> c = CHR ''#'' \<or> c = CHR ''<''
      \<or> c = CHR ''>'' \<or> c = CHR ''?'' \<or> c = CHR ''^'' \<or> c = CHR 0x60 \<or> c = CHR ''{''
      \<or> c = CHR ''}'')"

definition encode_with :: "(char \<Rightarrow> bool) \<Rightarrow> string \<Rightarrow> string" where
  "encode_with in_set s = concat (map (\<lambda>c. if in_set c then percent_encode c else [c]) s)"

definition is_single_dot :: "string \<Rightarrow> bool" where
  "is_single_dot buf = (map to_lower buf = ''.'' \<or> map to_lower buf = ''%2e'')"

definition is_double_dot :: "string \<Rightarrow> bool" where
  "is_double_dot buf =
     (map to_lower buf = ''..'' \<or> map to_lower buf = ''.%2e'' \<or> map to_lower buf = ''%2e.''
      \<or> map to_lower buf = ''%2e%2e'')"

definition push_segment :: "string list \<Rightarrow> string \<Rightarrow> bool \<Rightarrow> string list" where
  "push_segment p buf slash =
     (if is_double_dot buf then (if slash then butlast p else butlast p @ [[]])
      else if is_single_dot buf then (if slash then p else p @ [[]])
      else p @ [buf])"

definition fragment_state :: "string \<Rightarrow> string" where
  "fragment_state s = encode_with in_fragment_set s"

definition query_state :: "string \<Rightarrow> string \<times> string option" where
  "query_state s =
     (encode_with in_query_set (takeWhile (\<lambda>c. c \<noteq> CHR ''#'') s),
      case dropWhile (\<lambda>c. c \<noteq> CHR ''#'') s of
        [] \<Rightarrow> None
      | c # f \<Rightarrow> Some (fragment_state f))"

fun path_state :: "string list \<Rightarrow> string \<Rightarrow> string \<Rightarrow> string list \<times> string option \<times> string option" where
  "path_state p buf [] = (push_segment p buf False, None, None)"
| "path_state p buf (c # cs) =
     (if c = CHR ''/'' \<or> c = CHR 0x5C then path_state (push_segment p buf True) [] cs
      else if c = CHR ''?'' then
        (case query_state cs of (q, f) \<Rightarrow> (push_segment p buf False, Some q, f))
      else if c = CHR ''#'' then (push_segment p buf False, None, Some (fragment_state cs))
      else path_state p (buf @ encode_with in_path_set [c]) cs)"

fun split_on :: "char \<Rightarrow> string \<Rightarrow> string list" where
  "split_on d [] = [[]]"
| "split_on d (c # cs) =
     (if c = d then [] # split_on d cs
      else (case split_on d cs of [] \<Rightarrow> [[c]] | seg # segs \<Rightarrow> (c # seg) # segs))"

text \<open>The base: scheme, host and port, then the path state on what follows them.\<close>

definition host_label :: "string \<Rightarrow> bool" where
  "host_label l =
     (l \<noteq> [] \<and> list_all (\<lambda>c. is_lower c \<or> is_digit c \<or> c = CHR ''-'') l \<and> take 4 l \<noteq> ''xn--'')"

definition plain_host :: "string \<Rightarrow> bool" where
  "plain_host h =
     (list_all host_label (split_on CHR ''.'' h) \<and> is_lower (hd (last (split_on CHR ''.'' h))))"

definition parse_port :: "string \<Rightarrow> string \<Rightarrow> nat option option" where
  "parse_port sch ds =
     (if \<not> list_all is_digit ds then None
      else
        (let n = foldl (\<lambda>a d. a * 10 + (code_unit d - 48)) 0 ds in
         if n > 65535 then None
         else if ds = [] \<or> n = (if sch = ''https'' then 443 else 80) then Some None
         else Some (Some n)))"

definition ipv4_part :: "string \<Rightarrow> bool" where
  "ipv4_part l =
     (l \<noteq> [] \<and> length l \<le> 3 \<and> list_all is_digit l \<and> (length l = 1 \<or> hd l \<noteq> CHR ''0'') \<and>
      foldl (\<lambda>a d. a * 10 + (code_unit d - 48)) 0 l \<le> 255)"

definition ipv4_host :: "string \<Rightarrow> bool" where
  "ipv4_host h = (length (split_on CHR ''.'' h) = 4 \<and> list_all ipv4_part (split_on CHR ''.'' h))"

definition has_scheme :: "string \<Rightarrow> bool" where
  "has_scheme s =
     (case s of
        [] \<Rightarrow> False
      | c # cs \<Rightarrow>
          (is_lower c \<or> is_upper c) \<and>
          take 1 (dropWhile (\<lambda>d. is_alnum d \<or> d = CHR ''+'' \<or> d = CHR ''-'' \<or> d = CHR ''.'') cs) = '':'')"

definition strip_scheme :: "string \<Rightarrow> (string \<times> string) option" where
  "strip_scheme s =
     (let sch = map to_lower (takeWhile (\<lambda>c. c \<noteq> CHR '':'') s);
          rest = drop 1 (dropWhile (\<lambda>c. c \<noteq> CHR '':'') s) in
      if (sch = ''https'' \<or> sch = ''http'') \<and> take 2 rest = ''//'' then Some (sch, drop 2 rest)
      else None)"

definition ends_authority :: "char \<Rightarrow> bool" where
  "ends_authority c = (c = CHR ''/'' \<or> c = CHR 0x5C \<or> c = CHR ''?'' \<or> c = CHR ''#'')"

definition parse_base :: "string \<Rightarrow> URL platform_result" where
  "parse_base input =
     (let s = preprocess (USVString input) in
      if has_scheme s then
        (case strip_scheme s of
           None \<Rightarrow> Unmodelled
         | Some (sch, rest) \<Rightarrow>
             (let auth = takeWhile (\<lambda>c. \<not> ends_authority c) rest;
                  tail = dropWhile (\<lambda>c. \<not> ends_authority c) rest;
                  h = map to_lower (takeWhile (\<lambda>c. c \<noteq> CHR '':'') auth);
                  after_host = (case tail of
                                  [] \<Rightarrow> []
                                | c # t \<Rightarrow> if c = CHR ''/'' \<or> c = CHR 0x5C then t else tail) in
              if CHR ''@'' \<in> set auth then Unmodelled
              else if plain_host h \<or> ipv4_host h then
                (case parse_port sch (drop 1 (dropWhile (\<lambda>c. c \<noteq> CHR '':'') auth)) of
                   None \<Rightarrow> Throws
                 | Some prt \<Rightarrow>
                     (case path_state [] [] after_host of
                        (p, q, f) \<Rightarrow>
                          Returns \<lparr>url_scheme = sch, url_host = h, url_port = prt, url_path = p,
                                   url_query = q, url_fragment = f\<rparr>))
              else Unmodelled))
      else Throws)"

text \<open>
  The reference against the base; the base is parsed first. A reference that starts
  with one slash keeps the base's scheme, host and port and takes its path, query and
  fragment from the reference alone (relative slash state); a reference that starts
  with none starts from the base's path without its last segment (relative state).
\<close>

definition URL_new :: "string \<Rightarrow> string \<Rightarrow> URL platform_result" where
  "URL_new input base =
     (case parse_base base of
        Throws \<Rightarrow> Throws
      | Unmodelled \<Rightarrow> Unmodelled
      | Returns b \<Rightarrow>
          (let s = preprocess (USVString input) in
           if has_scheme s then Unmodelled
           else
             (case s of
                [] \<Rightarrow> Returns (b\<lparr>url_fragment := None\<rparr>)
              | c # cs \<Rightarrow>
                  if c = CHR ''/'' \<or> c = CHR 0x5C then
                    (if take 1 cs = ''/'' \<or> take 1 cs = [CHR 0x5C] then Unmodelled
                     else
                       (case path_state [] [] cs of
                          (p, q, f) \<Rightarrow> Returns (b\<lparr>url_path := p, url_query := q, url_fragment := f\<rparr>)))
                  else if c = CHR ''?'' then
                    (case query_state cs of (q, f) \<Rightarrow> Returns (b\<lparr>url_query := Some q, url_fragment := f\<rparr>))
                  else if c = CHR ''#'' then Returns (b\<lparr>url_fragment := Some (fragment_state cs)\<rparr>)
                  else
                    (case path_state (butlast (url_path b)) [] s of
                       (p, q, f) \<Rightarrow> Returns (b\<lparr>url_path := p, url_query := q, url_fragment := f\<rparr>)))))"

text \<open>The serializer, \<^verbatim>\<open>url.toString()\<close>.\<close>

fun decimal :: "nat \<Rightarrow> string" where
  "decimal n = (if n < 10 then [char_of (48 + n)] else decimal (n div 10) @ [char_of (48 + n mod 10)])"

definition origin :: "URL \<Rightarrow> string" where
  "origin u =
     url_scheme u @ ''://'' @ url_host u @ (case url_port u of None \<Rightarrow> [] | Some n \<Rightarrow> '':'' @ decimal n)"

definition URL_toString :: "URL \<Rightarrow> string" where
  "URL_toString u =
     origin u @ concat (map (\<lambda>s. ''/'' @ s) (url_path u))
       @ (case url_query u of None \<Rightarrow> [] | Some q \<Rightarrow> ''?'' @ q)
       @ (case url_fragment u of None \<Rightarrow> [] | Some f \<Rightarrow> ''#'' @ f)"

text \<open>
  \<^verbatim>\<open>url.searchParams\<close>: the query parsed as \<^verbatim>\<open>application/x-www-form-urlencoded\<close>, the
  \<^verbatim>\<open>set\<close> operation on the list of pairs, and the serializer that writes the list back
  into the query. The parser percent-decodes names and values and then decodes the
  bytes as UTF-8 (without byte order mark), which puts the replacement character in the
  place of every sequence that is not well formed: \<open>utf8_decode\<close> is the decoder of the
  Encoding Standard, with the bytes still needed, the bounds of the next byte and the
  bytes of the code point read so far.
\<close>

fun percent_decode :: "string \<Rightarrow> string" where
  "percent_decode [] = []"
| "percent_decode (c # cs) =
     (if c = CHR ''%'' then
        (case map hex_value (take 2 cs) of
           [Some a, Some b] \<Rightarrow> char_of (a * 16 + b) # percent_decode (drop 2 cs)
         | _ \<Rightarrow> c # percent_decode cs)
      else c # percent_decode cs)"

function utf8_decode :: "nat \<Rightarrow> nat \<Rightarrow> nat \<Rightarrow> string \<Rightarrow> string \<Rightarrow> string" where
  "utf8_decode needed lower upper seen [] = (if needed = 0 then [] else replacement_character)"
| "utf8_decode needed lower upper seen (c # cs) =
     (if needed = 0 then
        (if code_unit c \<le> 127 then c # utf8_decode 0 128 191 [] cs
         else if 194 \<le> code_unit c \<and> code_unit c \<le> 223 then utf8_decode 1 128 191 [c] cs
         else if 224 \<le> code_unit c \<and> code_unit c \<le> 239 then
           utf8_decode 2 (if code_unit c = 224 then 160 else 128)
             (if code_unit c = 237 then 159 else 191) [c] cs
         else if 240 \<le> code_unit c \<and> code_unit c \<le> 244 then
           utf8_decode 3 (if code_unit c = 240 then 144 else 128)
             (if code_unit c = 244 then 143 else 191) [c] cs
         else replacement_character @ utf8_decode 0 128 191 [] cs)
      else if code_unit c < lower \<or> upper < code_unit c then
        replacement_character @ utf8_decode 0 128 191 [] (c # cs)
      else if needed = 1 then seen @ [c] @ utf8_decode 0 128 191 [] cs
      else utf8_decode (needed - 1) 128 191 (seen @ [c]) cs)"
  by pat_completeness auto
termination
  by (relation "measure (\<lambda>(needed, lower, upper, seen, s). 2 * length s + (if needed = 0 then 0 else 1))")
    auto

definition plus_to_space :: "string \<Rightarrow> string" where
  "plus_to_space s = map (\<lambda>c. if c = CHR ''+'' then CHR 0x20 else c) s"

definition form_parse :: "string \<Rightarrow> (string \<times> string) list" where
  "form_parse s =
     map (\<lambda>seq.
            (utf8_decode 0 128 191 []
               (percent_decode (plus_to_space (takeWhile (\<lambda>c. c \<noteq> CHR ''='') seq))),
             utf8_decode 0 128 191 []
               (percent_decode (plus_to_space (drop 1 (dropWhile (\<lambda>c. c \<noteq> CHR ''='') seq))))))
       (filter (\<lambda>seq. seq \<noteq> []) (split_on CHR ''&'' s))"

definition form_encode :: "string \<Rightarrow> string" where
  "form_encode s =
     concat (map (\<lambda>c.
        if is_alnum c \<or> c = CHR ''*'' \<or> c = CHR ''-'' \<or> c = CHR ''.'' \<or> c = CHR ''_'' then [c]
        else if c = CHR 0x20 then ''+''
        else percent_encode c) s)"

fun form_serialize :: "(string \<times> string) list \<Rightarrow> string" where
  "form_serialize [] = []"
| "form_serialize [(n, v)] = form_encode n @ ''='' @ form_encode v"
| "form_serialize ((n, v) # rest) = form_encode n @ ''='' @ form_encode v @ ''&'' @ form_serialize rest"

fun set_pair :: "string \<Rightarrow> string \<Rightarrow> (string \<times> string) list \<Rightarrow> (string \<times> string) list" where
  "set_pair name v [] = [(name, v)]"
| "set_pair name v ((n, x) # rest) =
     (if n = name then (n, v) # filter (\<lambda>(m, y). m \<noteq> name) rest
      else (n, x) # set_pair name v rest)"

definition searchParams_set :: "string \<Rightarrow> string \<Rightarrow> (string \<times> string) list \<Rightarrow> (string \<times> string) list" where
  "searchParams_set name v params = set_pair (USVString name) (USVString v) params"

section \<open>The request pipeline (internal/sdk.ts, createHttpClient)\<close>

text \<open>
  A query record is the list of its entries in the order in which \<^verbatim>\<open>Object.entries\<close>
  gives them. Its values are strings, numbers and booleans; \<open>QUndefined\<close> and \<open>QNull\<close>
  are the absent values that \<^verbatim>\<open>buildURL\<close> skips. Numbers are the integers (page sizes):
  \<^verbatim>\<open>String\<close> prints a safe integer, one of absolute value at most \<open>2^53 - 1\<close>, in decimal
  notation; the other numbers are not modelled.
\<close>

datatype query_value = QString string | QNumber int | QBoolean bool | QUndefined | QNull

definition String :: "query_value \<Rightarrow> string platform_result" where
  "String v =
     (case v of
        QString s \<Rightarrow> Returns s
      | QNumber n \<Rightarrow>
          (if 9007199254740991 < \<bar>n\<bar> then Unmodelled
           else if n < 0 then Returns (''-'' @ decimal (nat (- n)))
           else Returns (decimal (nat n)))
      | QBoolean b \<Rightarrow> Returns (if b then ''true'' else ''false'')
      | QUndefined \<Rightarrow> Returns ''undefined''
      | QNull \<Rightarrow> Returns ''null'')"

text \<open>
  What \<^verbatim>\<open>fetch\<close> can do: fulfil with a response or reject with a thrown value, an
  \<^verbatim>\<open>Error\<close> with its message or anything else; \<open>None\<close> is a call that never settles.
  The body of a request is carried as the JSON value that \<^verbatim>\<open>JSON.stringify\<close> writes,
  the headers as the list of their names and values, and the abort signal as its
  timeout in milliseconds.
  The field \<^verbatim>\<open>method\<close> of the request options is \<open>http_method\<close> here.
\<close>

datatype thrown = Error string | NotAnError

datatype 'a settled = Fulfilled 'a | Rejected thrown

datatype HttpMethod = GET | POST | PATCH | DELETE

record RequestOptions =
  http_method :: HttpMethod
  path :: string
  body :: "json option"
  query :: "(string \<times> query_value) list option"

record RequestInit =
  init_method :: HttpMethod
  init_headers :: "(string \<times> string) list"
  init_signal :: int
  init_body :: "json option"

type_synonym 'w fetch_fn = "string \<Rightarrow> RequestInit \<Rightarrow> 'w \<Rightarrow> (Response settled \<times> 'w) option"

record 'w NotionClientConfig =
  auth :: string
  notionVersion :: "string option"
  baseURL :: "string option"
  timeoutMs :: "int option"
  fetch :: "'w fetch_fn option"

text \<open>
  \<^verbatim>\<open>a || d\<close> on an optional string or number (the empty string and zero are falsy), and
  the truthiness of a body: \<^verbatim>\<open>null\<close>, \<^verbatim>\<open>false\<close>, the empty string and a number whose digits
  before the exponent are all zero are falsy.
\<close>

definition string_or :: "string option \<Rightarrow> string \<Rightarrow> string" where
  "string_or a d = (case a of None \<Rightarrow> d | Some s \<Rightarrow> if s = [] then d else s)"

definition number_or :: "int option \<Rightarrow> int \<Rightarrow> int" where
  "number_or a d = (case a of None \<Rightarrow> d | Some n \<Rightarrow> if n = 0 then d else n)"

definition truthy :: "json \<Rightarrow> bool" where
  "truthy v =
     (case v of
        JNull \<Rightarrow> False
      | JBool b \<Rightarrow> b
      | JNumber n \<Rightarrow>
          \<not> list_all (\<lambda>c. c = CHR ''0'' \<or> c = CHR ''-'' \<or> c = CHR ''.'')
              (takeWhile (\<lambda>c. c \<noteq> CHR ''e'' \<and> c \<noteq> CHR ''E'') n)
      | JString s \<Rightarrow> s \<noteq> []
      | _ \<Rightarrow> True)"

text \<open>
  \<^verbatim>\<open>new Headers\<close> and \<^verbatim>\<open>headers.set\<close> (Fetch Standard) take byte strings: a value with a
  code unit above 255 throws a \<^verbatim>\<open>TypeError\<close>; in the representation of strings these are
  the values with a byte of 196 or more. The value is stored without its leading and
  trailing HTTP white space, and what is left must hold no NUL, line feed or carriage
  return, or the call throws. The names are the three constants of the source.
\<close>

definition http_whitespace :: "char \<Rightarrow> bool" where
  "http_whitespace c = (c = CHR 0x09 \<or> c = CHR 0x0A \<or> c = CHR 0x0D \<or> c = CHR 0x20)"

definition normalize_value :: "string \<Rightarrow> string" where
  "normalize_value v = rev (dropWhile http_whitespace (rev (dropWhile http_whitespace v)))"

definition header_value :: "string \<Rightarrow> bool" where
  "header_value v =
     (list_all (\<lambda>c. code_unit c < 196) v \<and>
      list_all (\<lambda>c. c \<noteq> CHR 0x00 \<and> c \<noteq> CHR 0x0A \<and> c \<noteq> CHR 0x0D) (normalize_value v))"

definition buildHeaders ::
  "('w, 'x) NotionClientConfig_scheme \<Rightarrow> string option \<Rightarrow> (string \<times> string) list platform_result" where
  "buildHeaders config contentType =
     (let authorization = ''Bearer '' @ auth config;
          version = string_or (notionVersion config) ''2022-06-28'';
          headers = [(''Authorization'', normalize_value authorization),
                     (''Notion-Version'', normalize_value version)] in
      if header_value authorization \<and> header_value version then
        (case contentType of
           None \<Rightarrow> Returns headers
         | Some ct \<Rightarrow>
             if ct = [] then Returns headers
             else if header_value ct then Returns (headers @ [(''Content-Type'', normalize_value ct)])
             else Throws)
      else Throws)"

text \<open>
  \<^verbatim>\<open>buildURL\<close>: the URL of the path against the base, then one \<^verbatim>\<open>searchParams.set\<close> for
  every entry of the query whose value is neither \<^verbatim>\<open>undefined\<close> nor \<^verbatim>\<open>null\<close>; a URL on
  which nothing was set keeps its query as it was parsed.
\<close>

fun set_entries ::
  "(string \<times> query_value) list \<Rightarrow> (string \<times> string) list \<Rightarrow> (string \<times> string) list platform_result" where
  "set_entries [] params = Returns params"
| "set_entries ((key, v) # entries) params =
     (if v \<noteq> QUndefined \<and> v \<noteq> QNull then
        (case String v of
           Returns text \<Rightarrow> set_entries entries (searchParams_set key text params)
         | Throws \<Rightarrow> Throws
         | Unmodelled \<Rightarrow> Unmodelled)
      else set_entries entries params)"

definition buildURL ::
  "('w, 'x) NotionClientConfig_scheme \<Rightarrow> string \<Rightarrow> (string \<times> query_value) list option
     \<Rightarrow> string platform_result" where
  "buildURL config p q =
     (case URL_new p (string_or (baseURL config) ''https://api.notion.com/v1'') of
        Throws \<Rightarrow> Throws
      | Unmodelled \<Rightarrow> Unmodelled
      | Returns url \<Rightarrow>
          (case q of
             None \<Rightarrow> Returns (URL_toString url)
           | Some entries \<Rightarrow>
               if filter (\<lambda>(key, v). v \<noteq> QUndefined \<and> v \<noteq> QNull) entries = []
               then Returns (URL_toString url)
               else
                 map_result (\<lambda>params. URL_toString (url\<lparr>url_query := Some (form_serialize params)\<rparr>))
                   (set_entries entries
                      (form_parse (case url_query url of None \<Rightarrow> [] | Some text \<Rightarrow> text)))))"

text \<open>
  \<^verbatim>\<open>AbortSignal.timeout\<close> throws on a negative number and on one above \<open>2^53 - 1\<close>. Between
  \<open>2^32\<close> and \<open>2^53 - 1\<close> the platforms differ (the Web IDL type is an unsigned long long,
  Node takes an unsigned 32-bit integer); these are not modelled. Timeouts are
  integers.
\<close>

definition AbortSignal_timeout :: "int \<Rightarrow> int platform_result" where
  "AbortSignal_timeout milliseconds =
     (if milliseconds < 0 then Throws
      else if milliseconds \<le> 4294967295 then Returns milliseconds
      else if milliseconds \<le> 9007199254740991 then Unmodelled
      else Throws)"

text \<open>The init of the call: the headers are built first, then the signal.\<close>

definition requestInit ::
  "('w, 'x) NotionClientConfig_scheme \<Rightarrow> RequestOptions \<Rightarrow> RequestInit platform_result" where
  "requestInit config options =
     (let sends_body = (case body options of None \<Rightarrow> False | Some b \<Rightarrow> truthy b) in
      case buildHeaders config (if sends_body then Some ''application/json'' else None) of
        Throws \<Rightarrow> Throws
      | Unmodelled \<Rightarrow> Unmodelled
      | Returns headers \<Rightarrow>
          (case AbortSignal_timeout (number_or (timeoutMs config) 30000) of
             Throws \<Rightarrow> Throws
           | Unmodelled \<Rightarrow> Unmodelled
           | Returns signal \<Rightarrow>
               Returns \<lparr>init_method = http_method options,
                        init_headers = headers,
                        init_signal = signal,
                        init_body = (if sends_body then body options else None)\<rparr>))"

text \<open>
  One run of the effect that \<^verbatim>\<open>request\<close> retries: acquire a permit, build the URL and the
  init, call \<^verbatim>\<open>fetch\<close> (\<^verbatim>\<open>config.fetch || fetch\<close>), parse the response. An exception of
  \<^verbatim>\<open>new URL\<close>, \<^verbatim>\<open>new Headers\<close> or \<^verbatim>\<open>AbortSignal.timeout\<close> inside the generator is a
  defect, and \<^verbatim>\<open>fetch\<close> is not called. There is no outcome when the URL or the init is
  outside the part of the platform modelled.
\<close>

definition attempt ::
  "'w NotionClientConfig \<Rightarrow> 'w fetch_fn \<Rightarrow> ('w \<Rightarrow> 'w option) \<Rightarrow> RequestOptions
     \<Rightarrow> ('w, NotionError, json) effect" where
  "attempt config global_fetch rateLimiter_acquire options w =
     (case rateLimiter_acquire w of
        None \<Rightarrow> None
      | Some w1 \<Rightarrow>
          (case buildURL config (path options) (query options) of
             Throws \<Rightarrow> Some (Die ''exception thrown by new URL'', w1)
           | Unmodelled \<Rightarrow> None
           | Returns url \<Rightarrow>
               (let fetchFn = (case fetch config of None \<Rightarrow> global_fetch | Some f \<Rightarrow> f) in
                case requestInit config options of
                  Throws \<Rightarrow> Some (Die ''exception thrown while the init is built'', w1)
                | Unmodelled \<Rightarrow> None
                | Returns init \<Rightarrow>
                    (case fetchFn url init w1 of
                       None \<Rightarrow> None
                     | Some (Rejected error, w2) \<Rightarrow>
                         Some (Failure \<lparr>status = 0, code = internal_server_error,
                                        message = (case error of Error m \<Rightarrow> m | NotAnError \<Rightarrow> ''Network error''),
                                        requestId = None\<rparr>, w2)
                     | Some (Fulfilled response, w2) \<Rightarrow> Some (parseResponse response, w2)))))"

text \<open>
  \<^verbatim>\<open>Effect.retry({times, schedule, while})\<close> of the effect library: after a typed failure
  the effect is run again when \<^verbatim>\<open>while\<close> holds of the error and fewer than \<^verbatim>\<open>times\<close>
  retries have been made, after sleeping the delay the schedule gives for this retry;
  otherwise the failure is the result. Successes and defects are not retried.
  \<^verbatim>\<open>Schedule.exponential(base)\<close> gives the \<open>n\<close>-th retry the delay \<open>base * 2 ^ n\<close>. Delays
  are in milliseconds; the runtime records every sleep of the retry driver in \<open>slept\<close>.
\<close>

record 'e retry_options =
  times :: nat
  schedule :: "nat \<Rightarrow> nat"
  while :: "'e \<Rightarrow> bool"

record 'w runtime =
  world :: 'w
  slept :: "nat list"

definition Schedule_exponential :: "nat \<Rightarrow> nat \<Rightarrow> nat" where
  "Schedule_exponential base n = base * 2 ^ n"

function Effect_retry ::
  "'e retry_options \<Rightarrow> ('w, 'e, 'a) effect \<Rightarrow> nat \<Rightarrow> ('w runtime, 'e, 'a) effect" where
  "Effect_retry opts eff n rt =
     (case eff (world rt) of
        None \<Rightarrow> None
      | Some (Failure e, w') \<Rightarrow>
          if while opts e \<and> n < times opts
          then Effect_retry opts eff (Suc n) \<lparr>world = w', slept = slept rt @ [schedule opts n]\<rparr>
          else Some (Failure e, \<lparr>world = w', slept = slept rt\<rparr>)
      | Some (Success a, w') \<Rightarrow> Some (Success a, \<lparr>world = w', slept = slept rt\<rparr>)
      | Some (Die d, w') \<Rightarrow> Some (Die d, \<lparr>world = w', slept = slept rt\<rparr>))"
  by pat_completeness auto
termination
  by (relation "measure (\<lambda>(opts, eff, n, rt). times opts - n)") auto

definition retryable :: "NotionError \<Rightarrow> bool" where
  "retryable error =
     (code error = rate_limited \<or> code error = internal_server_error
      \<or> code error = service_unavailable \<or> code error = gateway_timeout)"

definition request ::
  "'w NotionClientConfig \<Rightarrow> 'w fetch_fn \<Rightarrow> ('w \<Rightarrow> 'w option) \<Rightarrow> RequestOptions
     \<Rightarrow> ('w runtime, NotionError, json) effect" where
  "request config global_fetch rateLimiter_acquire options =
     Effect_retry \<lparr>times = 3, schedule = Schedule_exponential 1000, while = retryable\<rparr>
       (attempt config global_fetch rateLimiter_acquire options) 0"

section \<open>The client facade (internal/sdk.ts, createNotionClient)\<close>

text \<open>
  One constructor per operation of the client, with its arguments: identifiers are
  strings (\<^verbatim>\<open>UUID\<close> is a nominal brand of \<^verbatim>\<open>string\<close>), request objects are JSON values,
  query parameters are records. \<open>facade_options\<close> gives the options that the operation
  passes to \<^verbatim>\<open>http.request\<close>.
\<close>

datatype facade_call =
    databases_retrieve string
  | databases_create json
  | databases_update string json
  | databases_query string "json option"
  | pages_retrieve string
  | pages_create json
  | pages_update string json
  | blocks_retrieve string
  | blocks_update string json
  | blocks_delete string
  | blocks_children_list string "(string \<times> query_value) list option"
  | blocks_children_append string json
  | users_retrieve string
  | users_list "(string \<times> query_value) list option"
  | users_me
  | search "json option"
  | comments_create json
  | comments_list "(string \<times> query_value) list"

definition object_or_empty :: "json option \<Rightarrow> json" where
  "object_or_empty r = (case r of None \<Rightarrow> JObject [] | Some v \<Rightarrow> if truthy v then v else JObject [])"

fun facade_options :: "facade_call \<Rightarrow> RequestOptions" where
  "facade_options (databases_retrieve uuid) =
     \<lparr>http_method = GET, path = ''/v1/databases/'' @ uuid, body = None, query = None\<rparr>"
| "facade_options (databases_create r) =
     \<lparr>http_method = POST, path = ''/v1/databases'', body = Some r, query = None\<rparr>"
| "facade_options (databases_update uuid r) =
     \<lparr>http_method = PATCH, path = ''/v1/databases/'' @ uuid, body = Some r, query = None\<rparr>"
| "facade_options (databases_query uuid r) =
     \<lparr>http_method = POST, path = ''/v1/databases/'' @ uuid @ ''/query'',
      body = Some (object_or_empty r), query = None\<rparr>"
| "facade_options (pages_retrieve uuid) =
     \<lparr>http_method = GET, path = ''/v1/pages/'' @ uuid, body = None, query = None\<rparr>"
| "facade_options (pages_create r) =
     \<lparr>http_method = POST, path = ''/v1/pages'', body = Some r, query = None\<rparr>"
| "facade_options (pages_update uuid r) =
     \<lparr>http_method = PATCH, path = ''/v1/pages/'' @ uuid, body = Some r, query = None\<rparr>"
| "facade_options (blocks_retrieve uuid) =
     \<lparr>http_method = GET, path = ''/v1/blocks/'' @ uuid, body = None, query = None\<rparr>"
| "facade_options (blocks_update uuid r) =
     \<lparr>http_method = PATCH, path = ''/v1/blocks/'' @ uuid, body = Some r, query = None\<rparr>"
| "facade_options (blocks_delete uuid) =
     \<lparr>http_method = DELETE, path = ''/v1/blocks/'' @ uuid, body = None, query = None\<rparr>"
| "facade_options (blocks_children_list uuid params) =
     \<lparr>http_method = GET, path = ''/v1/blocks/'' @ uuid @ ''/children'', body = None,
      query = params\<rparr>"
| "facade_options (blocks_children_append uuid r) =
     \<lparr>http_method = PATCH, path = ''/v1/blocks/'' @ uuid @ ''/children'', body = Some r,
      query = None\<rparr>"
| "facade_options (users_retrieve uuid) =
     \<lparr>http_method = GET, path = ''/v1/users/'' @ uuid, body = None, query = None\<rparr>"
| "facade_options (users_list params) =
     \<lparr>http_method = GET, path = ''/v1/users'', body = None, query = params\<rparr>"
| "facade_options users_me =
     \<lparr>http_method = GET, path = ''/v1/users/me'', body = None, query = None\<rparr>"
| "facade_options (search params) =
     \<lparr>http_method = POST, path = ''/v1/search'', body = Some (object_or_empty params),
      query = None\<rparr>"
| "facade_options (comments_create r) =
     \<lparr>http_method = POST, path = ''/v1/comments'', body = Some r, query = None\<rparr>"
| "facade_options (comments_list params) =
     \<lparr>http_method = GET, path = ''/v1/comments'', body = None, query = Some params\<rparr>"

definition client ::
  "'w NotionClientConfig \<Rightarrow> 'w fetch_fn \<Rightarrow> ('w \<Rightarrow> 'w option) \<Rightarrow> facade_call
     \<Rightarrow> ('w runtime, NotionError, json) effect" where
  "client config global_fetch rateLimiter_acquire call =
     request config global_fetch rateLimiter_acquire (facade_options call)"

text \<open>
  The identifier that a call splices into its path (empty when it has none), and the
  characters of identifiers and paths that the URL parser leaves as they are.
\<close>

fun call_id :: "facade_call \<Rightarrow> string" where
  "call_id (databases_retrieve uuid) = uuid"
| "call_id (databases_update uuid r) = uuid"
| "call_id (databases_query uuid r) = uuid"
| "call_id (pages_retrieve uuid) = uuid"
| "call_id (pages_update uuid r) = uuid"
| "call_id (blocks_retrieve uuid) = uuid"
| "call_id (blocks_update uuid r) = uuid"
| "call_id (blocks_delete uuid) = uuid"
| "call_id (blocks_children_list uuid params) = uuid"
| "call_id (blocks_children_append uuid r) = uuid"
| "call_id (users_retrieve uuid) = uuid"
| "call_id call = []"

text \<open>
  The query string that a query record adds to a URL that has none: nothing when no
  entry has a value, else a question mark and the serialized pairs that the entries
  set, in their order.
\<close>

definition query_string :: "(string \<times> query_value) list option \<Rightarrow> string platform_result" where
  "query_string q =
     (case q of
        None \<Rightarrow> Returns []
      | Some entries \<Rightarrow>
          if filter (\<lambda>(key, v). v \<noteq> QUndefined \<and> v \<noteq> QNull) entries = [] then Returns []
          else map_result (\<lambda>params. ''?'' @ form_serialize params) (set_entries entries []))"

definition plain_char :: "char \<Rightarrow> bool" where
  "plain_char c = (is_alnum c \<or> c = CHR ''-'' \<or> c = CHR ''_'')"

definition path_char :: "char \<Rightarrow> bool" where
  "path_char c = (plain_char c \<or> c = CHR ''/'')"

section \<open>Sample configurations, worlds and responses\<close>

text \<open>
  A world made of the rate limiter and a counter of the calls of \<^verbatim>\<open>fetch\<close>; a
  \<^verbatim>\<open>fetch\<close> that answers every call with the same response; bodies as the API sends
  them.
\<close>

definition default_config :: "'w NotionClientConfig" where
  "default_config =
     \<lparr>auth = ''secret'', notionVersion = None, baseURL = None, timeoutMs = None, fetch = None\<rparr>"

definition limiter_acquire :: "RateLimiter \<times> nat \<Rightarrow> (RateLimiter \<times> nat) option" where
  "limiter_acquire = (\<lambda>(l, calls). map_option (\<lambda>l'. (l', calls)) (acquire l))"

definition always_responds :: "Response \<Rightarrow> (RateLimiter \<times> nat) fetch_fn" where
  "always_responds response url init = (\<lambda>(l, calls). Some (Fulfilled response, (l, Suc calls)))"

definition rate_limited_body :: string where
  \<open>rate_limited_body =
     ''{"object":"error","status":429,"code":"rate_limited","message":"Rate limited"}''\<close>

definition validation_error_body :: string where
  \<open>validation_error_body =
     ''{"object":"error","status":400,"code":"validation_error","message":"bad","request_id":"r-1"}''\<close>

definition retrieve_page :: RequestOptions where
  "retrieve_page = \<lparr>http_method = GET, path = ''/v1/pages/p1'', body = None, query = None\<rparr>"

definition rate_limited_response :: Response where
  "rate_limited_response =
     \<lparr>ok = False, response_status = 429, statusText = ''Too Many Requests'',
      body_text = Some rate_limited_body\<rparr>"

definition validation_error_response :: Response where
  "validation_error_response =
     \<lparr>ok = False, response_status = 400, statusText = ''Bad Request'',
      body_text = Some validation_error_body\<rparr>"

definition not_json_response :: Response where
  "not_json_response =
     \<lparr>ok = True, response_status = 200, statusText = ''OK'', body_text = Some ''not json''\<rparr>"

definition proxy_config :: "'w NotionClientConfig" where
  "proxy_config =
     \<lparr>auth = ''secret'', notionVersion = None, baseURL = Some ''https://proxy.example.com/notion/v1'',
      timeoutMs = None, fetch = None\<rparr>"

definition local_config :: "'w NotionClientConfig" where
  "local_config =
     \<lparr>auth = ''secret'', notionVersion = None, baseURL = Some ''HTTP://127.0.0.1:8080/mock/v1?x=1'',
      timeoutMs = None, fetch = None\<rparr>"

definition relative_base_config :: "'w NotionClientConfig" where
  "relative_base_config =
     \<lparr>auth = ''secret'', notionVersion = None, baseURL = Some ''api.notion.com/v1'',
      timeoutMs = None, fetch = None\<rparr>"

definition sample_uuid :: string where
  "sample_uuid = ''59833787-2cf9-4fdf-8782-e53db20768a5''"

definition bad_gateway_response :: Response where
  "bad_gateway_response =
     \<lparr>ok = False, response_status = 502, statusText = ''Bad Gateway'', body_text = Some []\<rparr>"

definition mismatched_status_response :: Response where
  "mismatched_status_response =
     \<lparr>ok = False, response_status = 500, statusText = ''Internal Server Error'',
      body_text = Some validation_error_body\<rparr>"

definition html_error_response :: Response where
  "html_error_response =
     \<lparr>ok = False, response_status = 503, statusText = ''Service Unavailable'',
      body_text = Some ''<html>''\<rparr>"

text \<open>
  Failure responses whose body is JSON but not an error payload of the schema: the
  value \<^verbatim>\<open>null\<close>, a code outside \<^verbatim>\<open>NotionErrorCode\<close>, a message that is a number, a
  \<open>request_id\<close> that is \<^verbatim>\<open>null\<close>.
\<close>

definition failure_response :: "string \<Rightarrow> Response" where
  "failure_response txt =
     \<lparr>ok = False, response_status = 500, statusText = ''Internal Server Error'',
      body_text = Some txt\<rparr>"

definition unknown_code_body :: string where
  \<open>unknown_code_body = ''{"code":"bad_gateway","message":"upstream"}''\<close>

definition numeric_message_body :: string where
  \<open>numeric_message_body = ''{"code":"rate_limited","message":5}''\<close>

definition null_request_id_body :: string where
  \<open>null_request_id_body = ''{"code":"rate_limited","message":"slow","request_id":null}''\<close>

section \<open>Properties of the rate limiter\<close>

lemma acquire_eq: "acquire l = (if available l < 1 then None else Some l)"
  by (simp add: acquire_def withPermit_def acquireN_def releaseN_def Effect_void_def available_def)

lemma available_refill: "available (refill l) = available l + 1"
  by (simp add: refill_def releaseN_def available_def)

lemma limiter_run_refills:
  "limiter_run (replicate n Refill) l = Some l' \<Longrightarrow> available l' = available l + int n"
  by (induction n arbitrary: l) (auto simp: available_refill)

text \<open>
  C2. An acquire that completes on a fresh limiter of burst 10 leaves all 10 permits
  available: \<^verbatim>\<open>withPermit\<close> hands the permit back once \<^verbatim>\<open>Effect.void\<close> has run, so the
  caller does return the token it consumed.
\<close>

theorem acquire_returns_its_permit:
  "available (createRateLimiter 3 10) = 10 \<and>
   map_option available (acquire (createRateLimiter 3 10)) = Some 10"
  by (simp add: acquire_eq available_def createRateLimiter_def TSemaphore_make_def)

text \<open>
  C3. One refill cycle on a fresh limiter of burst 10 makes 11 permits available: the
  daemon's \<^verbatim>\<open>releaseN\<close> has no cap.
\<close>

theorem refill_exceeds_burst:
  "map_option available (limiter_run [Refill] (createRateLimiter 3 10)) = Some 11"
  by (simp add: available_refill) (simp add: available_def createRateLimiter_def TSemaphore_make_def)

section \<open>Properties of the pagination traversal\<close>

lemma fetchRecursive_continues:
  "continues fetchPage cursor w ps = Some (c, w1) \<Longrightarrow>
   fetchRecursive fetchPage cursor acc w =
     fetchRecursive fetchPage c (acc @ concat (map results ps)) w1"
proof (induction ps arbitrary: cursor w acc)
  case Nil
  then show ?case by simp
next
  case (Cons p ps)
  from Cons.prems obtain w' where
    f: "fetchPage cursor w = Some (Success p, w')" and
    more: "has_more p" "Option_isSome (next_cursor p) = Some True" and
    rest: "continues fetchPage (page_cursor p) w' ps = Some (c, w1)"
    by (auto split: option.splits exit.splits if_splits)
  have "fetchRecursive fetchPage cursor acc w =
        fetchRecursive fetchPage (page_cursor p) (acc @ results p) w'"
    using f more by (subst fetchRecursive.simps) (simp add: page_cursor_def)
  also have "\<dots> = fetchRecursive fetchPage c ((acc @ results p) @ concat (map results ps)) w1"
    by (rule Cons.IH [OF rest])
  finally show ?case by simp
qed

lemma continues_logged:
  "continues fetchPage cursor w ps = Some (c, w1) \<Longrightarrow>
   continues (logged fetchPage) cursor (w, calls) ps =
     Some (c, (w1, calls @ take (length ps) (cursor # map page_cursor ps)))"
proof (induction ps arbitrary: cursor w calls)
  case Nil
  then show ?case by simp
next
  case (Cons p ps)
  from Cons.prems obtain w' where
    f: "fetchPage cursor w = Some (Success p, w')" and
    more: "has_more p" "Option_isSome (next_cursor p) = Some True" and
    rest: "continues fetchPage (page_cursor p) w' ps = Some (c, w1)"
    by (auto split: option.splits exit.splits if_splits)
  show ?case
    using f more Cons.IH [OF rest, of "calls @ [cursor]"] by (simp add: logged_def)
qed

lemma continues_cursor:
  "continues fetchPage cursor w ps = Some (c, w1) \<Longrightarrow> c = last (cursor # map page_cursor ps)"
  by (induction ps arbitrary: cursor w) (auto split: option.splits exit.splits if_splits)

lemma take_snoc_last: "take (length ps) (x # ps) @ [last (x # ps)] = x # ps"
  by (induction ps arbitrary: x) auto

lemma logged_last_call:
  assumes "continues fetchPage cursor w ps = Some (c, w1)"
    and "fetchPage c w1 = Some (r, w2)"
  shows "logged fetchPage c (w1, take (length ps) (cursor # map page_cursor ps)) =
           Some (r, (w2, cursor # map page_cursor ps))"
  using assms(2) continues_cursor [OF assms(1)] take_snoc_last [of "map page_cursor ps" cursor]
  by (simp add: logged_def)

lemma fetchRecursive_last:
  assumes "continues fetchPage cursor w ps = Some (c, w1)"
    and "fetchPage c w1 = Some (Success p, w2)"
    and "\<not> has_more p \<or> Option_isSome (next_cursor p) = Some False"
  shows "fetchRecursive fetchPage cursor acc w =
           Some (Success (acc @ concat (map results (ps @ [p]))), w2)"
proof -
  have "fetchRecursive fetchPage c (acc @ concat (map results ps)) w1 =
          Some (Success ((acc @ concat (map results ps)) @ results p), w2)"
    using assms(2,3) by (subst fetchRecursive.simps) (auto simp: Let_def)
  then show ?thesis
    using fetchRecursive_continues [OF assms(1), of acc] by simp
qed

lemma fetchRecursive_fails:
  assumes "continues fetchPage cursor w ps = Some (c, w1)"
    and "fetchPage c w1 = Some (Failure e, w2)"
  shows "fetchRecursive fetchPage cursor acc w = Some (Failure e, w2)"
proof -
  have "fetchRecursive fetchPage c (acc @ concat (map results ps)) w1 = Some (Failure e, w2)"
    using assms(2) by (subst fetchRecursive.simps) simp
  then show ?thesis
    using fetchRecursive_continues [OF assms(1), of acc] by simp
qed

text \<open>
  On pages whose cursors are \<^verbatim>\<open>Option\<close> values the traversal is the one announced: when
  the calls, the first with an absent cursor and each further one with the cursor of the
  page before, return the pages \<open>ps\<close>, each with \<open>has_more\<close> true and a \<^verbatim>\<open>Some\<close> cursor,
  and then a page \<open>p\<close> with \<open>has_more\<close> false or a cursor that is not a \<^verbatim>\<open>Some\<close>, the
  result is the concatenation of the results in order, after one call per page.
\<close>

lemma fetchAllPages_concatenates_pages:
  assumes "continues fetchPage None w ps = Some (c, w1)"
    and "fetchPage c w1 = Some (Success p, w2)"
    and "\<not> has_more p \<or> Option_isSome (next_cursor p) = Some False"
  shows "fetchAllPages fetchPage w = Some (Success (concat (map results (ps @ [p]))), w2) \<and>
         fetchAllPages (logged fetchPage) (w, []) =
           Some (Success (concat (map results (ps @ [p]))), (w2, None # map page_cursor ps))"
proof -
  have l1: "continues (logged fetchPage) None (w, []) ps =
              Some (c, (w1, take (length ps) (None # map page_cursor ps)))"
    using continues_logged [OF assms(1), of "[]"] by simp
  have l2: "logged fetchPage c (w1, take (length ps) (None # map page_cursor ps)) =
              Some (Success p, (w2, None # map page_cursor ps))"
    by (rule logged_last_call [OF assms(1,2)])
  show ?thesis
    using fetchRecursive_last [OF assms, of "[]"] fetchRecursive_last [OF l1 l2 assms(3), of "[]"]
    by (simp add: fetchAllPages_def)
qed

lemma fetchAllPages_option_pages:
  "fetchAllPages (logged scripted)
       ([Success page_AB, Success page_C :: (NotionError, string PaginatedList) exit], [])
     = Some (Success [''A'', ''B'', ''C''], ([], [None, Some ''x'']))"
proof -
  have h1: "continues scripted None
              [Success page_AB, Success page_C :: (NotionError, string PaginatedList) exit] [page_AB]
            = Some (Some ''x'', [Success page_C])"
    by (simp add: page_AB_def page_cursor_def Option_isSome_def Option_getOrNull_def)
  have h2: "scripted (Some ''x'') [Success page_C :: (NotionError, string PaginatedList) exit]
            = Some (Success page_C, [])"
    by simp
  have h3: "\<not> has_more page_C \<or> Option_isSome (next_cursor page_C) = Some False"
    by (simp add: page_C_def)
  show ?thesis
    using fetchAllPages_concatenates_pages [OF h1 h2 h3]
    by (simp add: page_AB_def page_C_def page_cursor_def Option_getOrNull_def)
qed

text \<open>
  C4. The scenario of the claim on the pages that the client delivers: a first page
  [A, B] with \<open>has_more\<close> true and the cursor \<^verbatim>\<open>"x"\<close> as the parsed body holds it, a raw
  string, then a page [C]. \<^verbatim>\<open>Option.isSome\<close> is false on the raw string, so
  \<open>fetchAllPages\<close> returns [A, B] after a single call of the fetch function; the page
  [C] is never fetched.
\<close>

theorem fetchAllPages_stops_at_raw_cursor:
  "fetchAllPages (logged scripted)
       ([Success raw_page_AB, Success raw_page_C :: (NotionError, string PaginatedList) exit], [])
     = Some (Success [''A'', ''B''], ([Success raw_page_C], [None]))"
  unfolding fetchAllPages_def
  by (subst fetchRecursive.simps) (simp add: logged_def raw_page_AB_def Option_isSome_def)

text \<open>
  C7. For every fetch function and every number of pages fetched before: when the
  fetch that follows the pages \<open>ps\<close> fails with the error \<open>e\<close>, \<open>fetchAllPages\<close> fails
  with \<open>e\<close>; the failure carries no results, so the pages \<open>ps\<close> are dropped. The fetch
  function is not called again after the failure.
\<close>

theorem fetchAllPages_fails_with_page_error:
  assumes "continues fetchPage None w ps = Some (c, w1)"
    and "fetchPage c w1 = Some (Failure e, w2)"
  shows "fetchAllPages fetchPage w = Some (Failure e, w2) \<and>
         fetchAllPages (logged fetchPage) (w, []) =
           Some (Failure e, (w2, None # map page_cursor ps))"
proof -
  have l1: "continues (logged fetchPage) None (w, []) ps =
              Some (c, (w1, take (length ps) (None # map page_cursor ps)))"
    using continues_logged [OF assms(1), of "[]"] by simp
  have l2: "logged fetchPage c (w1, take (length ps) (None # map page_cursor ps)) =
              Some (Failure e, (w2, None # map page_cursor ps))"
    by (rule logged_last_call [OF assms])
  show ?thesis
    using fetchRecursive_fails [OF assms, of "[]"] fetchRecursive_fails [OF l1 l2, of "[]"]
    by (simp add: fetchAllPages_def)
qed

theorem fetchAllPages_fails_with_page_error_witness:
  "fetchAllPages scripted [Success page_AB, Failure rate_limit_error, Success page_C]
     = Some (Failure rate_limit_error, [Success page_C]) \<and>
   fetchAllPages (logged scripted) ([Success page_AB, Failure rate_limit_error, Success page_C], [])
     = Some (Failure rate_limit_error, ([Success page_C], [None, Some ''x''])) \<and>
   fetchAllPages (logged scripted) ([Failure rate_limit_error, Success raw_page_C], [])
     = Some (Failure rate_limit_error, ([Success raw_page_C], [None]))"
proof -
  have h1: "continues scripted None [Success page_AB, Failure rate_limit_error, Success page_C] [page_AB]
            = Some (Some ''x'', [Failure rate_limit_error, Success page_C])"
    by (simp add: page_AB_def page_cursor_def Option_isSome_def Option_getOrNull_def)
  have h2: "scripted (Some ''x'') [Failure rate_limit_error, Success page_C]
            = Some (Failure rate_limit_error, [Success page_C])"
    by simp
  have g1: "continues scripted None [Failure rate_limit_error, Success raw_page_C] []
            = Some (None, [Failure rate_limit_error, Success raw_page_C])"
    by simp
  have g2: "scripted None [Failure rate_limit_error, Success raw_page_C]
            = Some (Failure rate_limit_error, [Success raw_page_C])"
    by simp
  show ?thesis
    using fetchAllPages_fails_with_page_error [OF h1 h2]
      fetchAllPages_fails_with_page_error [OF g1 g2]
    by (simp add: page_AB_def page_cursor_def Option_getOrNull_def)
qed

section \<open>Properties of response parsing\<close>

lemma JSON_parse_empty: "JSON_parse [] = None"
  by (simp add: JSON_parse_def)

lemma JSON_parse_not_json: "JSON_parse ''not json'' = None"
  by (simp add: JSON_parse_def is_ws_def is_digit_def code_unit_def)

lemma JSON_parse_validation_error_body:
  "JSON_parse validation_error_body =
     Some (JObject [(''object'', JString ''error''), (''status'', JNumber ''400''),
                    (''code'', JString ''validation_error''), (''message'', JString ''bad''),
                    (''request_id'', JString ''r-1'')])"
  by code_simp

lemma JSON_parse_rate_limited_body:
  "JSON_parse rate_limited_body =
     Some (JObject [(''object'', JString ''error''), (''status'', JNumber ''429''),
                    (''code'', JString ''rate_limited''), (''message'', JString ''Rate limited'')])"
  by code_simp

lemma decode_error_validation_error_body:
  "decode_error response validation_error_body =
     Some \<lparr>status = response_status response, code = validation_error, message = ''bad'',
           requestId = Some ''r-1''\<rparr>"
  by (simp add: decode_error_def JSON_parse_validation_error_body member_def NotionError_new_def
      NotionErrorCode_values_def)

lemma parseResponse_rate_limited: "parseResponse rate_limited_response = Failure rate_limit_error"
  by (simp add: parseResponse_def rate_limited_response_def decode_error_def
      JSON_parse_rate_limited_body member_def NotionError_new_def NotionErrorCode_values_def
      rate_limit_error_def)

lemma parseResponse_validation_error:
  "parseResponse validation_error_response =
     Failure \<lparr>status = 400, code = validation_error, message = ''bad'', requestId = Some ''r-1''\<rparr>"
  by (simp add: parseResponse_def validation_error_response_def decode_error_validation_error_body)

lemma JSON_parse_null: "JSON_parse ''null'' = Some JNull"
  by code_simp

lemma JSON_parse_empty_object: "JSON_parse ''{}'' = Some (JObject [])"
  by code_simp

lemma JSON_parse_html: "JSON_parse ''<html>'' = None"
  by (simp add: JSON_parse_def is_ws_def is_digit_def code_unit_def)

lemma JSON_parse_unknown_code_body:
  "JSON_parse unknown_code_body =
     Some (JObject [(''code'', JString ''bad_gateway''), (''message'', JString ''upstream'')])"
  by code_simp

lemma JSON_parse_numeric_message_body:
  "JSON_parse numeric_message_body =
     Some (JObject [(''code'', JString ''rate_limited''), (''message'', JNumber ''5'')])"
  by code_simp

lemma JSON_parse_null_request_id_body:
  "JSON_parse null_request_id_body =
     Some (JObject [(''code'', JString ''rate_limited''), (''message'', JString ''slow''),
                    (''request_id'', JNull)])"
  by code_simp

text \<open>
  C8, as stated, fails on two responses. A failure response with an empty body cannot
  be decoded, and its error carries the status text, not the (empty) raw text. A
  failure response of HTTP status 500 whose body is an error payload of status 400 gives
  an error of status 500: the status is the response's, not the payload's.
\<close>

theorem parseResponse_message_and_status_counterexample:
  "\<not> ok bad_gateway_response \<and> body_text bad_gateway_response = Some [] \<and> JSON_parse [] = None \<and>
   parseResponse bad_gateway_response =
     Failure \<lparr>status = 502, code = internal_server_error, message = ''Bad Gateway'',
              requestId = None\<rparr> \<and>
   ''Bad Gateway'' \<noteq> [] \<and>
   \<not> ok mismatched_status_response \<and>
   body_text mismatched_status_response = Some validation_error_body \<and>
   JSON_parse validation_error_body =
     Some (JObject [(''object'', JString ''error''), (''status'', JNumber ''400''),
                    (''code'', JString ''validation_error''), (''message'', JString ''bad''),
                    (''request_id'', JString ''r-1'')]) \<and>
   parseResponse mismatched_status_response =
     Failure \<lparr>status = 500, code = validation_error, message = ''bad'', requestId = Some ''r-1''\<rparr>"
  by (simp add: bad_gateway_response_def mismatched_status_response_def parseResponse_def
      decode_error_validation_error_body JSON_parse_validation_error_body)
     (simp add: decode_error_def JSON_parse_empty)

text \<open>
  C8, amended. For every response that is not ok and whose body text was read, the
  result is a failure with the status of the response. It is the generic failure, with
  the code \<open>internal_server_error\<close> and the raw text as message, or the status text of the
  response when the raw text is empty, in each of these cases: the text is not JSON;
  it is JSON but not an object; the object has no \<open>code\<close> that is a string; its code is
  not one of the error codes; it has no \<open>message\<close> that is a string; it has a
  \<open>request_id\<close> that is not a string. In the remaining case, an object whose \<open>code\<close> is
  one of the error codes, whose \<open>message\<close> is a string and whose \<open>request_id\<close> is absent
  or a string, it is the failure with the code, message and request id of the payload.
\<close>

theorem parseResponse_failure:
  assumes "\<not> ok response" and "body_text response = Some txt"
  shows
    "(let generic =
        Failure \<lparr>status = response_status response, code = internal_server_error,
                 message = (if txt = [] then statusText response else txt), requestId = None\<rparr>
      in
        (JSON_parse txt = None \<longrightarrow> parseResponse response = generic) \<and>
        (\<forall>v. JSON_parse txt = Some v \<and> (\<forall>ms. v \<noteq> JObject ms) \<longrightarrow>
           parseResponse response = generic) \<and>
        (\<forall>ms. JSON_parse txt = Some (JObject ms) \<and>
              (\<forall>c. map_of (rev ms) ''code'' \<noteq> Some (JString c)) \<longrightarrow>
           parseResponse response = generic) \<and>
        (\<forall>ms c. JSON_parse txt = Some (JObject ms) \<and>
              map_of (rev ms) ''code'' = Some (JString c) \<and> map_of NotionErrorCode_values c = None \<longrightarrow>
           parseResponse response = generic) \<and>
        (\<forall>ms. JSON_parse txt = Some (JObject ms) \<and>
              (\<forall>m. map_of (rev ms) ''message'' \<noteq> Some (JString m)) \<longrightarrow>
           parseResponse response = generic) \<and>
        (\<forall>ms v. JSON_parse txt = Some (JObject ms) \<and>
              map_of (rev ms) ''request_id'' = Some v \<and> (\<forall>r. v \<noteq> JString r) \<longrightarrow>
           parseResponse response = generic) \<and>
        (\<forall>ms c k m.
           JSON_parse txt = Some (JObject ms) \<and>
           map_of (rev ms) ''code'' = Some (JString c) \<and> map_of NotionErrorCode_values c = Some k \<and>
           map_of (rev ms) ''message'' = Some (JString m) \<longrightarrow>
           (map_of (rev ms) ''request_id'' = None \<longrightarrow>
              parseResponse response =
                Failure \<lparr>status = response_status response, code = k, message = m,
                         requestId = None\<rparr>) \<and>
           (\<forall>r. map_of (rev ms) ''request_id'' = Some (JString r) \<longrightarrow>
              parseResponse response =
                Failure \<lparr>status = response_status response, code = k, message = m,
                         requestId = Some r\<rparr>)))"
proof -
  let ?generic = "Failure \<lparr>status = response_status response, code = internal_server_error,
                    message = (if txt = [] then statusText response else txt), requestId = None\<rparr>"
  have p: "parseResponse response =
             (case decode_error response txt of Some e \<Rightarrow> Failure e | None \<Rightarrow> ?generic)"
    using assms by (simp add: parseResponse_def)
  have c1: "JSON_parse txt = None \<Longrightarrow> decode_error response txt = None"
    by (simp add: decode_error_def)
  have c2: "\<And>v. JSON_parse txt = Some v \<Longrightarrow> (\<forall>ms. v \<noteq> JObject ms) \<Longrightarrow>
              decode_error response txt = None"
    subgoal for v by (cases v) (simp_all add: decode_error_def member_def NotionError_new_def)
    done
  have obj: "\<And>ms. JSON_parse txt = Some (JObject ms) \<Longrightarrow>
               decode_error response txt =
                 NotionError_new (response_status response) (map_of (rev ms) ''code'')
                   (map_of (rev ms) ''message'') (map_of (rev ms) ''request_id'')"
    by (simp add: decode_error_def member_def)
  have c3: "\<And>st c m r. (\<forall>s. c \<noteq> Some (JString s)) \<Longrightarrow> NotionError_new st c m r = None"
    by (auto simp: NotionError_new_def split: option.splits json.splits)
  have c4: "\<And>st s m r. map_of NotionErrorCode_values s = None \<Longrightarrow>
              NotionError_new st (Some (JString s)) m r = None"
    by (simp add: NotionError_new_def)
  have c5: "\<And>st c m r. (\<forall>s. m \<noteq> Some (JString s)) \<Longrightarrow> NotionError_new st c m r = None"
    by (auto simp: NotionError_new_def split: option.splits json.splits)
  have c6: "\<And>st c m v. (\<forall>s. v \<noteq> JString s) \<Longrightarrow> NotionError_new st c m (Some v) = None"
    by (auto simp: NotionError_new_def split: option.splits json.splits)
  have c7: "\<And>st s k m. map_of NotionErrorCode_values s = Some k \<Longrightarrow>
              NotionError_new st (Some (JString s)) (Some (JString m)) None =
                Some \<lparr>status = st, code = k, message = m, requestId = None\<rparr>"
    by (simp add: NotionError_new_def)
  have c8: "\<And>st s k m r. map_of NotionErrorCode_values s = Some k \<Longrightarrow>
              NotionError_new st (Some (JString s)) (Some (JString m)) (Some (JString r)) =
                Some \<lparr>status = st, code = k, message = m, requestId = Some r\<rparr>"
    by (simp add: NotionError_new_def)
  show ?thesis
    unfolding Let_def p
    by (intro conjI allI impI; (elim conjE)?)
       (simp_all add: c1 c2 obj c3 c4 c5 c6 c7 c8)
qed

text \<open>
  One response for each case: an HTML page, an empty body, \<^verbatim>\<open>null\<close>, an object without
  members, an unknown code, a numeric message, a \<^verbatim>\<open>null\<close> request id; then a payload
  without and one with a request id, the second under an HTTP status other than the
  payload's.
\<close>

theorem parseResponse_failure_witness:
  "parseResponse html_error_response =
     Failure \<lparr>status = 503, code = internal_server_error, message = ''<html>'', requestId = None\<rparr> \<and>
   parseResponse bad_gateway_response =
     Failure \<lparr>status = 502, code = internal_server_error, message = ''Bad Gateway'',
              requestId = None\<rparr> \<and>
   parseResponse (failure_response ''null'') =
     Failure \<lparr>status = 500, code = internal_server_error, message = ''null'', requestId = None\<rparr> \<and>
   parseResponse (failure_response ''{}'') =
     Failure \<lparr>status = 500, code = internal_server_error, message = ''{}'', requestId = None\<rparr> \<and>
   parseResponse (failure_response unknown_code_body) =
     Failure \<lparr>status = 500, code = internal_server_error, message = unknown_code_body,
              requestId = None\<rparr> \<and>
   parseResponse (failure_response numeric_message_body) =
     Failure \<lparr>status = 500, code = internal_server_error, message = numeric_message_body,
              requestId = None\<rparr> \<and>
   parseResponse (failure_response null_request_id_body) =
     Failure \<lparr>status = 500, code = internal_server_error, message = null_request_id_body,
              requestId = None\<rparr> \<and>
   parseResponse rate_limited_response =
     Failure \<lparr>status = 429, code = rate_limited, message = ''Rate limited'', requestId = None\<rparr> \<and>
   parseResponse mismatched_status_response =
     Failure \<lparr>status = 500, code = validation_error, message = ''bad'', requestId = Some ''r-1''\<rparr>"
proof -
  have codes: "map_of NotionErrorCode_values ''validation_error'' = Some validation_error"
    "map_of NotionErrorCode_values ''rate_limited'' = Some rate_limited"
    "map_of NotionErrorCode_values ''bad_gateway'' = None"
    by (simp_all add: NotionErrorCode_values_def)
  have nonempty: "unknown_code_body \<noteq> []" "numeric_message_body \<noteq> []" "null_request_id_body \<noteq> []"
    by (simp_all add: unknown_code_body_def numeric_message_body_def null_request_id_body_def)
  have a: "\<not> ok html_error_response" "body_text html_error_response = Some ''<html>''"
    and b: "\<not> ok bad_gateway_response" "body_text bad_gateway_response = Some []"
    and f: "\<And>txt. \<not> ok (failure_response txt)" "\<And>txt. body_text (failure_response txt) = Some txt"
    and r: "\<not> ok rate_limited_response" "body_text rate_limited_response = Some rate_limited_body"
    and m: "\<not> ok mismatched_status_response"
      "body_text mismatched_status_response = Some validation_error_body"
    by (simp_all add: html_error_response_def bad_gateway_response_def failure_response_def
        rate_limited_response_def mismatched_status_response_def)
  show ?thesis
    using parseResponse_failure [OF a] parseResponse_failure [OF b]
      parseResponse_failure [OF f, of "''null''"]
      parseResponse_failure [OF f, of "''{}''"]
      parseResponse_failure [OF f, of unknown_code_body]
      parseResponse_failure [OF f, of numeric_message_body]
      parseResponse_failure [OF f, of null_request_id_body]
      parseResponse_failure [OF r] parseResponse_failure [OF m]
      JSON_parse_html JSON_parse_empty JSON_parse_null JSON_parse_empty_object
      JSON_parse_unknown_code_body
      JSON_parse_numeric_message_body JSON_parse_null_request_id_body
      JSON_parse_rate_limited_body JSON_parse_validation_error_body codes nonempty
    by (simp add: Let_def html_error_response_def bad_gateway_response_def failure_response_def
        rate_limited_response_def mismatched_status_response_def)
qed

section \<open>Properties of URL building\<close>

lemma plain_char_code:
  "plain_char c \<Longrightarrow>
     (48 \<le> code_unit c \<and> code_unit c \<le> 57) \<or> (65 \<le> code_unit c \<and> code_unit c \<le> 90) \<or>
     (97 \<le> code_unit c \<and> code_unit c \<le> 122) \<or> code_unit c = 45 \<or> code_unit c = 95"
  by (auto simp: plain_char_def is_alnum_def is_digit_def is_lower_def is_upper_def code_unit_def)

lemma plain_char_not_special:
  assumes "plain_char c"
  shows "c \<noteq> CHR ''/''" "c \<noteq> CHR 0x5C" "c \<noteq> CHR ''?''" "c \<noteq> CHR ''#''" "c \<noteq> CHR ''.''"
    "c \<noteq> CHR ''%''" "c \<noteq> CHR '':''" "\<not> in_path_set c" "\<not> tab_or_newline c" "\<not> c0_control_or_space c"
  using plain_char_code [OF assms]
  by (auto simp: in_path_set_def tab_or_newline_def c0_control_or_space_def code_unit_def)

lemma to_lower_plain:
  assumes "plain_char c"
  shows "to_lower c \<noteq> CHR ''.''" "to_lower c \<noteq> CHR ''%''"
proof -
  have "code_unit (to_lower c) \<noteq> 46 \<and> code_unit (to_lower c) \<noteq> 37"
    using plain_char_code [OF assms]
    by (auto simp: to_lower_def is_upper_def code_unit_def)
  then show "to_lower c \<noteq> CHR ''.''" "to_lower c \<noteq> CHR ''%''"
    by (auto simp: code_unit_def)
qed

lemma plain_not_dot:
  assumes "list_all plain_char buf"
  shows "\<not> is_single_dot buf" "\<not> is_double_dot buf"
proof -
  have "buf = [] \<or> (to_lower (hd buf) \<noteq> CHR ''.'' \<and> to_lower (hd buf) \<noteq> CHR ''%'')"
    using assms to_lower_plain by (cases buf) auto
  then show "\<not> is_single_dot buf" "\<not> is_double_dot buf"
    by (cases buf; auto simp: is_single_dot_def is_double_dot_def)+
qed

lemma push_segment_plain:
  "list_all plain_char buf \<Longrightarrow> push_segment p buf slash = p @ [buf]"
  by (simp add: push_segment_def plain_not_dot)

text \<open>
  On a path of plain characters and slashes the path state only splits at the slashes:
  joining the segments gives the path back.
\<close>

lemma path_state_plain:
  "list_all path_char s \<Longrightarrow> list_all plain_char buf \<Longrightarrow>
   (case path_state p buf s of
      (p', q, f) \<Rightarrow>
        q = None \<and> f = None \<and>
        concat (map (\<lambda>seg. ''/'' @ seg) p') = concat (map (\<lambda>seg. ''/'' @ seg) p) @ ''/'' @ buf @ s)"
proof (induction s arbitrary: p buf)
  case Nil
  then show ?case by (simp add: push_segment_plain)
next
  case (Cons c cs)
  show ?case
  proof (cases "c = CHR ''/''")
    case True
    with Cons.prems Cons.IH [of "[]" "p @ [buf]"] show ?thesis
      by (simp add: push_segment_plain)
  next
    case False
    with Cons.prems have pc: "plain_char c" by (simp add: path_char_def)
    from Cons.prems pc have "list_all plain_char (buf @ [c])" by simp
    from Cons.IH [OF _ this, of p] Cons.prems pc False show ?thesis
      by (simp add: plain_char_not_special encode_with_def)
  qed
qed

lemma dropWhile_none: "list_all (\<lambda>c. \<not> P c) s \<Longrightarrow> dropWhile P s = s"
  by (cases s) auto

lemma filter_all: "list_all P s \<Longrightarrow> filter P s = s"
  by (induction s) auto

lemma path_char_not_blank:
  assumes "path_char c"
  shows "\<not> c0_control_or_space c" "\<not> tab_or_newline c"
proof -
  show "\<not> c0_control_or_space c"
  proof (cases "c = CHR ''/''")
    case True
    then show ?thesis by (simp add: c0_control_or_space_def code_unit_def)
  next
    case False
    with assms show ?thesis by (simp add: path_char_def plain_char_not_special)
  qed
  show "\<not> tab_or_newline c"
  proof (cases "c = CHR ''/''")
    case True
    then show ?thesis by (simp add: tab_or_newline_def)
  next
    case False
    with assms show ?thesis by (simp add: path_char_def plain_char_not_special)
  qed
qed

lemma USVString_no_surrogate: "list_all (\<lambda>c. c \<noteq> CHR 0xED) s \<Longrightarrow> USVString s = s"
  by (induction s rule: USVString.induct) auto

lemma USVString_path:
  assumes "list_all path_char s"
  shows "USVString s = s"
proof -
  have "c \<noteq> CHR 0xED" if "path_char c" for c
    using that plain_char_code [of c] by (auto simp: path_char_def code_unit_def)
  with assms have "list_all (\<lambda>c. c \<noteq> CHR 0xED) s"
    by (simp add: list_all_iff)
  then show ?thesis by (rule USVString_no_surrogate)
qed

lemma preprocess_path:
  assumes "list_all path_char s"
  shows "preprocess (USVString s) = s"
proof -
  have a: "list_all (\<lambda>c. \<not> c0_control_or_space c) s" and b: "list_all (\<lambda>c. \<not> tab_or_newline c) s"
    using assms by (auto simp: list_all_iff path_char_not_blank)
  from a have "list_all (\<lambda>c. \<not> c0_control_or_space c) (rev s)" by (simp add: list_all_iff)
  with a b show ?thesis
    by (simp add: USVString_path [OF assms] preprocess_def dropWhile_none filter_all)
qed

lemma URL_new_absolute_path:
  assumes "parse_base base = Returns b"
    and "list_all path_char r"
  shows "\<exists>p'. URL_new (''/v1/'' @ r) base =
                 Returns (b\<lparr>url_path := p', url_query := None, url_fragment := None\<rparr>) \<and>
               concat (map (\<lambda>seg. ''/'' @ seg) p') = ''/v1/'' @ r"
proof -
  have pc: "list_all path_char (''/v1/'' @ r)"
    using assms(2)
    by (simp add: path_char_def plain_char_def is_alnum_def is_digit_def is_lower_def code_unit_def)
  have pc': "list_all path_char (''v1/'' @ r)"
    using pc by simp
  obtain p' q f where ps: "path_state [] [] (''v1/'' @ r) = (p', q, f)"
    by (cases "path_state [] [] (''v1/'' @ r)") auto
  from path_state_plain [OF pc', of "[]" "[]"] ps
  have res: "q = None" "f = None" "concat (map (\<lambda>seg. ''/'' @ seg) p') = ''/v1/'' @ r"
    by auto
  have sch: "\<not> has_scheme (''/v1/'' @ r)"
    by (simp add: has_scheme_def is_lower_def is_upper_def code_unit_def)
  have "URL_new (''/v1/'' @ r) base = Returns (b\<lparr>url_path := p', url_query := None, url_fragment := None\<rparr>)"
    using assms(1) sch ps res(1,2) unfolding URL_new_def preprocess_path [OF pc]
    by simp
  with res(3) show ?thesis by blast
qed

lemma form_parse_empty: "form_parse [] = []"
  by (simp add: form_parse_def)

text \<open>
  The URL of a path of plain characters under \<^verbatim>\<open>/v1/\<close>: the origin of the base, the path,
  and the query string of the query record.
\<close>

lemma buildURL_absolute_path:
  assumes "parse_base (string_or (baseURL config) ''https://api.notion.com/v1'') = Returns b"
    and "list_all path_char r"
  shows "buildURL config (''/v1/'' @ r) None = Returns (origin b @ ''/v1/'' @ r)"
    and "buildURL config (''/v1/'' @ r) q =
           map_result (\<lambda>qs. origin b @ ''/v1/'' @ r @ qs) (query_string q)"
proof -
  from URL_new_absolute_path [OF assms]
  obtain p' where u: "URL_new (''/v1/'' @ r) (string_or (baseURL config) ''https://api.notion.com/v1'')
                        = Returns (b\<lparr>url_path := p', url_query := None, url_fragment := None\<rparr>)"
    and s: "concat (map (\<lambda>seg. ''/'' @ seg) p') = ''/v1/'' @ r"
    by auto
  show "buildURL config (''/v1/'' @ r) None = Returns (origin b @ ''/v1/'' @ r)"
    using u s by (simp add: buildURL_def URL_toString_def origin_def)
  show "buildURL config (''/v1/'' @ r) q =
          map_result (\<lambda>qs. origin b @ ''/v1/'' @ r @ qs) (query_string q)"
  proof (cases q)
    case None
    with u s show ?thesis
      by (simp add: buildURL_def URL_toString_def origin_def query_string_def map_result_def)
  next
    case (Some entries)
    show ?thesis
    proof (cases "filter (\<lambda>(key, v). v \<noteq> QUndefined \<and> v \<noteq> QNull) entries = []")
      case True
      with Some u s show ?thesis
        by (simp add: buildURL_def URL_toString_def origin_def query_string_def map_result_def)
    next
      case False
      with Some u s show ?thesis
        by (cases "set_entries entries []")
           (simp_all add: buildURL_def URL_toString_def origin_def query_string_def map_result_def
              form_parse_empty)
    qed
  qed
qed

text \<open>The two sample bases, parsed.\<close>

lemma parse_base_default:
  "parse_base ''https://api.notion.com/v1'' =
     Returns \<lparr>url_scheme = ''https'', url_host = ''api.notion.com'', url_port = None,
              url_path = [''v1''], url_query = None, url_fragment = None\<rparr>"
  by (simp add: parse_base_def preprocess_def has_scheme_def strip_scheme_def c0_control_or_space_def
      tab_or_newline_def ends_authority_def plain_host_def host_label_def is_alnum_def
      parse_port_def is_lower_def is_digit_def code_unit_def push_segment_def is_single_dot_def
      is_double_dot_def to_lower_def is_upper_def encode_with_def in_path_set_def)

lemma parse_base_proxy:
  "parse_base ''https://proxy.example.com/notion/v1'' =
     Returns \<lparr>url_scheme = ''https'', url_host = ''proxy.example.com'', url_port = None,
              url_path = [''notion'', ''v1''], url_query = None, url_fragment = None\<rparr>"
  by (simp add: parse_base_def preprocess_def has_scheme_def strip_scheme_def c0_control_or_space_def
      tab_or_newline_def ends_authority_def plain_host_def host_label_def is_alnum_def
      parse_port_def is_lower_def is_digit_def code_unit_def push_segment_def is_single_dot_def
      is_double_dot_def to_lower_def is_upper_def encode_with_def in_path_set_def)

lemma parse_base_local:
  "parse_base ''HTTP://127.0.0.1:8080/mock/v1?x=1'' =
     Returns \<lparr>url_scheme = ''http'', url_host = ''127.0.0.1'', url_port = Some 8080,
              url_path = [''mock'', ''v1''], url_query = Some ''x=1'', url_fragment = None\<rparr>"
  by (simp add: parse_base_def preprocess_def has_scheme_def strip_scheme_def c0_control_or_space_def
      tab_or_newline_def ends_authority_def plain_host_def host_label_def is_alnum_def
      ipv4_host_def ipv4_part_def query_state_def in_query_set_def to_lower_def char_of_def bit_0
      parse_port_def is_lower_def is_digit_def code_unit_def push_segment_def is_single_dot_def
      is_double_dot_def is_upper_def encode_with_def in_path_set_def)

lemma path_char_simps:
  "path_char CHR ''/''" "path_char CHR ''a''" "path_char CHR ''b''" "path_char CHR ''c''"
  "path_char CHR ''d''" "path_char CHR ''e''" "path_char CHR ''g''" "path_char CHR ''h''"
  "path_char CHR ''i''" "path_char CHR ''k''" "path_char CHR ''l''" "path_char CHR ''m''"
  "path_char CHR ''n''" "path_char CHR ''o''" "path_char CHR ''p''" "path_char CHR ''q''"
  "path_char CHR ''r''" "path_char CHR ''s''" "path_char CHR ''t''" "path_char CHR ''u''"
  "path_char CHR ''y''" "path_char CHR ''1''"
  by (simp_all add: path_char_def plain_char_def is_alnum_def is_lower_def is_digit_def code_unit_def)

lemma buildURL_retrieve_page:
  "buildURL default_config ''/v1/pages/p1'' None = Returns ''https://api.notion.com/v1/pages/p1''"
proof -
  have b: "parse_base (string_or (baseURL default_config) ''https://api.notion.com/v1'') =
     Returns \<lparr>url_scheme = ''https'', url_host = ''api.notion.com'', url_port = None,
              url_path = [''v1''], url_query = None, url_fragment = None\<rparr>"
    by (simp add: default_config_def string_or_def parse_base_default)
  have r: "list_all path_char ''pages/p1''"
    by (simp add: path_char_simps)
  show ?thesis
    using buildURL_absolute_path(1) [OF b r] by (simp add: origin_def)
qed

text \<open>The init of a request without a body under the sample configuration.\<close>

lemma requestInit_retrieve_page:
  "requestInit default_config retrieve_page =
     Returns \<lparr>init_method = GET,
              init_headers = [(''Authorization'', ''Bearer secret''), (''Notion-Version'', ''2022-06-28'')],
              init_signal = 30000, init_body = None\<rparr>"
  by (simp add: requestInit_def buildHeaders_def header_value_def normalize_value_def
      http_whitespace_def AbortSignal_timeout_def number_or_def string_or_def default_config_def
      retrieve_page_def code_unit_def)

section \<open>Properties of the retry policy\<close>

lemma Effect_retry_again:
  assumes "eff w = Some (Failure e, w')" and "while opts e" and "n < times opts"
  shows "Effect_retry opts eff n \<lparr>world = w, slept = s\<rparr> =
           Effect_retry opts eff (Suc n) \<lparr>world = w', slept = s @ [schedule opts n]\<rparr>"
  using assms by (subst Effect_retry.simps) simp

lemma Effect_retry_stop:
  assumes "eff w = Some (Failure e, w')" and "\<not> (while opts e \<and> n < times opts)"
  shows "Effect_retry opts eff n \<lparr>world = w, slept = s\<rparr> =
           Some (Failure e, \<lparr>world = w', slept = s\<rparr>)"
  using assms by (subst Effect_retry.simps) auto

lemma retryable_iff:
  "retryable e \<longleftrightarrow>
     code e \<in> {rate_limited, internal_server_error, service_unavailable, gateway_timeout}"
  by (auto simp: retryable_def)

lemma request_stops:
  assumes "attempt config global_fetch rateLimiter_acquire options w = Some (Failure e, w')"
    and "code e \<notin> {rate_limited, internal_server_error, service_unavailable, gateway_timeout}"
  shows "request config global_fetch rateLimiter_acquire options \<lparr>world = w, slept = s\<rparr> =
           Some (Failure e, \<lparr>world = w', slept = s\<rparr>)"
proof -
  have "Effect_retry \<lparr>times = 3, schedule = Schedule_exponential 1000, while = retryable\<rparr>
          (attempt config global_fetch rateLimiter_acquire options) 0 \<lparr>world = w, slept = s\<rparr> =
        Some (Failure e, \<lparr>world = w', slept = s\<rparr>)"
    by (rule Effect_retry_stop) (use assms in \<open>simp_all add: retryable_iff\<close>)
  then show ?thesis by (simp add: request_def)
qed

text \<open>
  What an attempt makes of the call: a rejected \<^verbatim>\<open>fetch\<close> (a transport failure or the
  timeout) is the error of status 0 and code \<open>internal_server_error\<close>, which is among the
  codes retried; a fulfilled one is parsed.
\<close>

lemma attempt_rejected:
  assumes "rateLimiter_acquire w = Some w1"
    and "buildURL config (path options) (query options) = Returns url"
    and "requestInit config options = Returns init"
    and "(case fetch config of None \<Rightarrow> global_fetch | Some f \<Rightarrow> f) url init w1
           = Some (Rejected error, w2)"
  shows "\<exists>e. attempt config global_fetch rateLimiter_acquire options w = Some (Failure e, w2) \<and>
             status e = 0 \<and> code e = internal_server_error \<and> retryable e"
  using assms by (simp add: attempt_def retryable_def)

lemma attempt_fulfilled:
  assumes "rateLimiter_acquire w = Some w1"
    and "buildURL config (path options) (query options) = Returns url"
    and "requestInit config options = Returns init"
    and "(case fetch config of None \<Rightarrow> global_fetch | Some f \<Rightarrow> f) url init w1
           = Some (Fulfilled response, w2)"
  shows "attempt config global_fetch rateLimiter_acquire options w = Some (parseResponse response, w2)"
  using assms by (simp add: attempt_def)

text \<open>Evaluation of the sample world: the limiter of burst 10 never blocks.\<close>

lemma limiter_acquire_fresh:
  "limiter_acquire (createRateLimiter 3 10, n) = Some (createRateLimiter 3 10, n)"
  by (simp add: limiter_acquire_def acquire_eq available_def createRateLimiter_def TSemaphore_make_def)

lemma attempt_always_responds:
  "attempt default_config (always_responds response) limiter_acquire retrieve_page
     (createRateLimiter 3 10, n) =
   Some (parseResponse response, (createRateLimiter 3 10, Suc n))"
proof -
  have u: "buildURL (default_config :: (RateLimiter \<times> nat) NotionClientConfig)
             (path retrieve_page) (query retrieve_page) = Returns ''https://api.notion.com/v1/pages/p1''"
    by (simp add: retrieve_page_def buildURL_retrieve_page)
  have f: "fetch (default_config :: (RateLimiter \<times> nat) NotionClientConfig) = None"
    by (simp add: default_config_def)
  show ?thesis
    by (simp add: attempt_def limiter_acquire_fresh u requestInit_retrieve_page f always_responds_def)
qed

text \<open>
  A base URL without a scheme: \<^verbatim>\<open>new URL\<close> throws, the request dies with this defect,
  \<^verbatim>\<open>fetch\<close> is not called and nothing is retried.
\<close>

lemma parse_base_relative: "parse_base ''api.notion.com/v1'' = Throws"
  by (simp add: parse_base_def preprocess_def c0_control_or_space_def tab_or_newline_def
      has_scheme_def is_alnum_def is_lower_def is_upper_def is_digit_def code_unit_def)

lemma request_dies_on_relative_base:
  "request relative_base_config (always_responds not_json_response) limiter_acquire retrieve_page
     \<lparr>world = (createRateLimiter 3 10, 0), slept = []\<rparr> =
   Some (Die ''exception thrown by new URL'', \<lparr>world = (createRateLimiter 3 10, 0), slept = []\<rparr>)"
proof -
  have "buildURL (relative_base_config :: (RateLimiter \<times> nat) NotionClientConfig)
          (path retrieve_page) (query retrieve_page) = Throws"
    by (simp add: buildURL_def URL_new_def relative_base_config_def string_or_def parse_base_relative)
  then have "attempt relative_base_config (always_responds not_json_response) limiter_acquire
               retrieve_page (createRateLimiter 3 10, 0) =
             Some (Die ''exception thrown by new URL'', (createRateLimiter 3 10, 0))"
    by (simp add: attempt_def limiter_acquire_fresh)
  then show ?thesis
    unfolding request_def by (subst Effect_retry.simps) simp
qed

text \<open>
  C1. When four successive runs of the request's attempt (permit, call, parse) fail
  with errors whose codes are among \<open>rate_limited\<close>, \<open>internal_server_error\<close>,
  \<open>service_unavailable\<close> and \<open>gateway_timeout\<close>, the request makes exactly these four
  attempts, sleeps 1000, 2000 and 4000 milliseconds between them, and fails with the
  error of the fourth.
\<close>

theorem request_retries_three_times:
  assumes "attempt config global_fetch rateLimiter_acquire options w0 = Some (Failure e1, w1)"
    and "attempt config global_fetch rateLimiter_acquire options w1 = Some (Failure e2, w2)"
    and "attempt config global_fetch rateLimiter_acquire options w2 = Some (Failure e3, w3)"
    and "attempt config global_fetch rateLimiter_acquire options w3 = Some (Failure e4, w4)"
    and "code e1 \<in> {rate_limited, internal_server_error, service_unavailable, gateway_timeout}"
    and "code e2 \<in> {rate_limited, internal_server_error, service_unavailable, gateway_timeout}"
    and "code e3 \<in> {rate_limited, internal_server_error, service_unavailable, gateway_timeout}"
    and "code e4 \<in> {rate_limited, internal_server_error, service_unavailable, gateway_timeout}"
  shows "request config global_fetch rateLimiter_acquire options \<lparr>world = w0, slept = s\<rparr> =
           Some (Failure e4, \<lparr>world = w4, slept = s @ [1000, 2000, 4000]\<rparr>)"
proof -
  let ?opts = "\<lparr>times = 3, schedule = Schedule_exponential 1000, while = retryable\<rparr>"
  let ?eff = "attempt config global_fetch rateLimiter_acquire options"
  have r: "retryable e1" "retryable e2" "retryable e3"
    using assms(5-7) by (simp_all add: retryable_iff)
  have s1: "Effect_retry ?opts ?eff 0 \<lparr>world = w0, slept = s\<rparr> =
            Effect_retry ?opts ?eff (Suc 0) \<lparr>world = w1, slept = s @ [schedule ?opts 0]\<rparr>"
    by (rule Effect_retry_again [where e = e1]) (simp_all add: assms(1) r(1))
  have s2: "Effect_retry ?opts ?eff (Suc 0) \<lparr>world = w1, slept = s @ [1000]\<rparr> =
            Effect_retry ?opts ?eff (Suc (Suc 0))
              \<lparr>world = w2, slept = (s @ [1000]) @ [schedule ?opts (Suc 0)]\<rparr>"
    by (rule Effect_retry_again [where e = e2]) (simp_all add: assms(2) r(2))
  have s3: "Effect_retry ?opts ?eff (Suc (Suc 0)) \<lparr>world = w2, slept = s @ [1000, 2000]\<rparr> =
            Effect_retry ?opts ?eff (Suc (Suc (Suc 0)))
              \<lparr>world = w3, slept = (s @ [1000, 2000]) @ [schedule ?opts (Suc (Suc 0))]\<rparr>"
    by (rule Effect_retry_again [where e = e3]) (simp_all add: assms(3) r(3))
  have s4: "Effect_retry ?opts ?eff (Suc (Suc (Suc 0))) \<lparr>world = w3, slept = s @ [1000, 2000, 4000]\<rparr> =
            Some (Failure e4, \<lparr>world = w4, slept = s @ [1000, 2000, 4000]\<rparr>)"
    by (rule Effect_retry_stop [where e = e4]) (simp_all add: assms(4))
  have "Effect_retry ?opts ?eff 0 \<lparr>world = w0, slept = s\<rparr> =
        Some (Failure e4, \<lparr>world = w4, slept = s @ [1000, 2000, 4000]\<rparr>)"
    using s1 s2 s3 s4 by (simp add: Schedule_exponential_def)
  then show ?thesis by (simp add: request_def)
qed

text \<open>
  A \<^verbatim>\<open>fetch\<close> that answers every call with a 429 response: four calls, the three
  sleeps, then the failure.
\<close>

theorem request_retries_three_times_witness:
  "code rate_limit_error \<in> {rate_limited, internal_server_error, service_unavailable, gateway_timeout} \<and>
   request default_config (always_responds rate_limited_response) limiter_acquire retrieve_page
     \<lparr>world = (createRateLimiter 3 10, 0), slept = []\<rparr> =
   Some (Failure rate_limit_error,
         \<lparr>world = (createRateLimiter 3 10, 4), slept = [1000, 2000, 4000]\<rparr>)"
proof -
  have a: "\<And>n. attempt default_config (always_responds rate_limited_response) limiter_acquire
             retrieve_page (createRateLimiter 3 10, n) =
           Some (Failure rate_limit_error, (createRateLimiter 3 10, Suc n))"
    by (simp add: attempt_always_responds parseResponse_rate_limited)
  have c: "code rate_limit_error \<in>
             {rate_limited, internal_server_error, service_unavailable, gateway_timeout}"
    by (simp add: rate_limit_error_def)
  show ?thesis
    using c request_retries_three_times [OF a [of 0] a [of "Suc 0"] a [of "Suc (Suc 0)"]
        a [of "Suc (Suc (Suc 0))"] c c c c, of "[]"]
    by (simp add: numeral_eq_Suc)
qed

text \<open>
  C6. When the request's attempt fails with an error whose code is outside
  \<open>rate_limited\<close>, \<open>internal_server_error\<close>, \<open>service_unavailable\<close> and \<open>gateway_timeout\<close>,
  the request fails with exactly that error after this one attempt, and no sleep is
  added.
\<close>

theorem request_does_not_retry_other_codes:
  assumes "attempt config global_fetch rateLimiter_acquire options w = Some (Failure e, w')"
    and "code e \<notin> {rate_limited, internal_server_error, service_unavailable, gateway_timeout}"
  shows "request config global_fetch rateLimiter_acquire options \<lparr>world = w, slept = s\<rparr> =
           Some (Failure e, \<lparr>world = w', slept = s\<rparr>)"
  using assms by (rule request_stops)

theorem request_does_not_retry_other_codes_witness:
  "validation_error \<notin> {rate_limited, internal_server_error, service_unavailable, gateway_timeout} \<and>
   request default_config (always_responds validation_error_response) limiter_acquire retrieve_page
     \<lparr>world = (createRateLimiter 3 10, 0), slept = []\<rparr> =
   Some (Failure \<lparr>status = 400, code = validation_error, message = ''bad'', requestId = Some ''r-1''\<rparr>,
         \<lparr>world = (createRateLimiter 3 10, 1), slept = []\<rparr>)"
proof -
  have a: "attempt default_config (always_responds validation_error_response) limiter_acquire
             retrieve_page (createRateLimiter 3 10, 0) =
           Some (Failure \<lparr>status = 400, code = validation_error, message = ''bad'',
                          requestId = Some ''r-1''\<rparr>, (createRateLimiter 3 10, Suc 0))"
    by (simp add: attempt_always_responds parseResponse_validation_error)
  have c: "code \<lparr>status = 400, code = validation_error, message = ''bad'', requestId = Some ''r-1''\<rparr>
             \<notin> {rate_limited, internal_server_error, service_unavailable, gateway_timeout}"
    by simp
  show ?thesis
    using request_does_not_retry_other_codes [OF a c, of "[]"] by simp
qed

text \<open>
  C9. When the permit is acquired, the URL and the init are built and \<^verbatim>\<open>fetch\<close>, called
  with them, fulfils with a response that is ok and whose body text is not valid JSON,
  the request fails with the typed error of code \<open>invalid_json\<close> (a failure, not a
  defect), after this one attempt and with no sleep.
\<close>

theorem request_invalid_json:
  assumes "rateLimiter_acquire w = Some w1"
    and "buildURL config (path options) (query options) = Returns url"
    and "requestInit config options = Returns init"
    and "(case fetch config of None \<Rightarrow> global_fetch | Some f \<Rightarrow> f) url init w1
           = Some (Fulfilled response, w2)"
    and "ok response"
    and "body_text response = Some txt"
    and "JSON_parse txt = None"
  shows "request config global_fetch rateLimiter_acquire options \<lparr>world = w, slept = s\<rparr> =
           Some (Failure \<lparr>status = response_status response, code = invalid_json,
                          message = ''Invalid JSON response'', requestId = None\<rparr>,
                 \<lparr>world = w2, slept = s\<rparr>)"
proof -
  have p: "parseResponse response =
             Failure \<lparr>status = response_status response, code = invalid_json,
                      message = ''Invalid JSON response'', requestId = None\<rparr>"
    using assms(5-7) by (simp add: parseResponse_def)
  have a: "attempt config global_fetch rateLimiter_acquire options w =
             Some (Failure \<lparr>status = response_status response, code = invalid_json,
                            message = ''Invalid JSON response'', requestId = None\<rparr>, w2)"
    using assms(1-4) p by (simp add: attempt_def)
  show ?thesis
    by (rule request_stops [OF a]) simp
qed

text \<open>The scenario of the specification: status 200 with the body \<^verbatim>\<open>not json\<close>.\<close>

theorem request_invalid_json_witness:
  "JSON_parse ''not json'' = None \<and>
   request default_config (always_responds not_json_response) limiter_acquire retrieve_page
     \<lparr>world = (createRateLimiter 3 10, 0), slept = []\<rparr> =
   Some (Failure \<lparr>status = 200, code = invalid_json, message = ''Invalid JSON response'',
                  requestId = None\<rparr>,
         \<lparr>world = (createRateLimiter 3 10, 1), slept = []\<rparr>)"
proof -
  have h1: "limiter_acquire (createRateLimiter 3 10, 0) = Some (createRateLimiter 3 10, 0)"
    by (rule limiter_acquire_fresh)
  have h2: "buildURL (default_config :: (RateLimiter \<times> nat) NotionClientConfig)
              (path retrieve_page) (query retrieve_page) = Returns ''https://api.notion.com/v1/pages/p1''"
    by (simp add: retrieve_page_def buildURL_retrieve_page)
  have hi: "requestInit (default_config :: (RateLimiter \<times> nat) NotionClientConfig) retrieve_page =
     Returns \<lparr>init_method = GET,
              init_headers = [(''Authorization'', ''Bearer secret''), (''Notion-Version'', ''2022-06-28'')],
              init_signal = 30000, init_body = None\<rparr>"
    by (rule requestInit_retrieve_page)
  have h3: "(case fetch (default_config :: (RateLimiter \<times> nat) NotionClientConfig) of
               None \<Rightarrow> always_responds not_json_response | Some f \<Rightarrow> f)
              ''https://api.notion.com/v1/pages/p1''
              \<lparr>init_method = GET,
               init_headers = [(''Authorization'', ''Bearer secret''), (''Notion-Version'', ''2022-06-28'')],
               init_signal = 30000, init_body = None\<rparr>
              (createRateLimiter 3 10, 0)
            = Some (Fulfilled not_json_response, (createRateLimiter 3 10, 1))"
    by (simp add: default_config_def always_responds_def)
  have h4: "ok not_json_response" and h5: "body_text not_json_response = Some ''not json''"
    by (simp_all add: not_json_response_def)
  show ?thesis
    using JSON_parse_not_json
      request_invalid_json [where rateLimiter_acquire = limiter_acquire
        and config = "default_config :: (RateLimiter \<times> nat) NotionClientConfig"
        and options = retrieve_page and global_fetch = "always_responds not_json_response"
        and s = "[]", OF h1 h2 hi h3 h4 h5 JSON_parse_not_json]
    by (simp add: not_json_response_def)
qed

section \<open>Properties of the client facade\<close>

lemma plain_path_char: "list_all plain_char s \<Longrightarrow> list_all path_char s"
  by (simp add: list_all_iff path_char_def)

lemma facade_path:
  assumes "list_all plain_char (call_id call)"
  shows "\<exists>r. path (facade_options call) = ''/v1/'' @ r \<and> list_all path_char r"
  using assms by (cases call) (simp_all add: path_char_simps plain_path_char)

lemma sample_uuid_plain: "list_all plain_char sample_uuid"
  by (simp add: sample_uuid_def plain_char_def is_alnum_def is_digit_def is_lower_def is_upper_def
      code_unit_def)

text \<open>
  C5, as stated, fails: the options of the delete operation are not those of an update
  that carries \<open>archived: true\<close>; the HTTP method is DELETE and there is no body.
\<close>

theorem blocks_delete_is_not_an_update:
  "facade_options (blocks_delete sample_uuid) \<noteq>
     facade_options (blocks_update sample_uuid (JObject [(''archived'', JBool True)])) \<and>
   http_method (facade_options (blocks_delete sample_uuid)) = DELETE \<and>
   body (facade_options (blocks_delete sample_uuid)) = None"
  by simp

text \<open>
  C5, amended. The delete operation of a block issues a DELETE request on
  \<^verbatim>\<open>/v1/blocks/{id}\<close> with no body and no query; the request carries neither an
  \<open>archived\<close> flag nor a content type. Its init is built when the two header values are
  valid and the timeout is; then it has the method DELETE, the authorization and
  version headers, the signal of the timeout and no body.
\<close>

theorem blocks_delete_sends_delete:
  "facade_options (blocks_delete uuid) =
     \<lparr>http_method = DELETE, path = ''/v1/blocks/'' @ uuid, body = None, query = None\<rparr> \<and>
   requestInit config (facade_options (blocks_delete uuid)) =
     (if header_value (''Bearer '' @ auth config) \<and>
         header_value (string_or (notionVersion config) ''2022-06-28'')
      then
        map_result
          (\<lambda>signal.
             \<lparr>init_method = DELETE,
              init_headers =
                [(''Authorization'', normalize_value (''Bearer '' @ auth config)),
                 (''Notion-Version'', normalize_value (string_or (notionVersion config) ''2022-06-28''))],
              init_signal = signal,
              init_body = None\<rparr>)
          (AbortSignal_timeout (number_or (timeoutMs config) 30000))
      else Throws)"
  by (simp add: requestInit_def buildHeaders_def map_result_def Let_def
      split: platform_result.split)

text \<open>Under the sample configuration: the two headers, the default timeout.\<close>

theorem blocks_delete_sends_delete_witness:
  "facade_options (blocks_delete sample_uuid) =
     \<lparr>http_method = DELETE, path = ''/v1/blocks/59833787-2cf9-4fdf-8782-e53db20768a5'',
      body = None, query = None\<rparr> \<and>
   requestInit (default_config :: unit NotionClientConfig) (facade_options (blocks_delete sample_uuid)) =
     Returns \<lparr>init_method = DELETE,
              init_headers = [(''Authorization'', ''Bearer secret''), (''Notion-Version'', ''2022-06-28'')],
              init_signal = 30000,
              init_body = None\<rparr>"
  using blocks_delete_sends_delete [of sample_uuid "default_config :: unit NotionClientConfig"]
  by (simp add: header_value_def normalize_value_def http_whitespace_def AbortSignal_timeout_def
      number_or_def string_or_def default_config_def sample_uuid_def map_result_def code_unit_def)

text \<open>
  C10, as stated, fails: an identifier is any string, and the URL parser resolves the
  dot segments of the path. With the identifier \<^verbatim>\<open>../../x\<close> the path of the operation is
  \<^verbatim>\<open>/v1/databases/../../x\<close> and the URL of the request is \<^verbatim>\<open>https://api.notion.com/x\<close>,
  which is not the origin followed by the path of the operation.
\<close>

theorem facade_url_resolves_dot_segments:
  "path (facade_options (databases_retrieve ''../../x'')) = ''/v1/databases/../../x'' \<and>
   buildURL (default_config :: unit NotionClientConfig)
       (path (facade_options (databases_retrieve ''../../x'')))
       (query (facade_options (databases_retrieve ''../../x'')))
     = Returns ''https://api.notion.com/x'' \<and>
   ''https://api.notion.com/x'' \<noteq>
     ''https://api.notion.com'' @ path (facade_options (databases_retrieve ''../../x''))"
  by (simp add: buildURL_def URL_new_def default_config_def string_or_def parse_base_default
      preprocess_def c0_control_or_space_def tab_or_newline_def has_scheme_def is_lower_def
      is_upper_def code_unit_def push_segment_def is_single_dot_def is_double_dot_def to_lower_def
      encode_with_def in_path_set_def URL_toString_def origin_def)

text \<open>
  C10, amended. For every operation of the facade whose identifier is made of letters,
  digits, hyphens and underscores, and every configuration whose base URL is parsed (an
  \<^verbatim>\<open>http\<close> or \<^verbatim>\<open>https\<close> URL with a domain or IPv4 address as host): the path of the
  operation begins with \<^verbatim>\<open>/v1/\<close>; the URL built for the path alone is exactly the origin
  of the base (scheme, host and port) followed by that path; and the URL built with the
  query record of the operation is exactly the origin, the path and the query string of
  the record. The path, the query and the fragment of the base URL do not occur in it.
\<close>

theorem facade_url_discards_base_path:
  assumes "parse_base (string_or (baseURL config) ''https://api.notion.com/v1'') = Returns b"
    and "list_all plain_char (call_id call)"
  shows "take 4 (path (facade_options call)) = ''/v1/'' \<and>
         buildURL config (path (facade_options call)) None
           = Returns (origin b @ path (facade_options call)) \<and>
         buildURL config (path (facade_options call)) (query (facade_options call))
           = map_result (\<lambda>qs. origin b @ path (facade_options call) @ qs)
               (query_string (query (facade_options call)))"
proof -
  from facade_path [OF assms(2)] obtain r where
    r: "path (facade_options call) = ''/v1/'' @ r" "list_all path_char r"
    by blast
  show ?thesis
    using buildURL_absolute_path [OF assms(1) r(2)] by (simp add: r(1))
qed

text \<open>
  A base URL with the path prefix \<^verbatim>\<open>/notion/v1\<close>: the prefix is not in the URL of the
  request, without and with query parameters. A base URL with an upper-case scheme, an
  IPv4 address, a port, a path and a query: the origin with the port is kept, the path
  and the query are not. The default base gives the standard endpoint.
\<close>

theorem facade_url_discards_base_path_witness:
  "buildURL (proxy_config :: unit NotionClientConfig)
       (path (facade_options (databases_retrieve sample_uuid))) None
     = Returns ''https://proxy.example.com/v1/databases/59833787-2cf9-4fdf-8782-e53db20768a5'' \<and>
   buildURL (proxy_config :: unit NotionClientConfig)
       (path (facade_options (users_list (Some [(''page_size'', QNumber 100), (''start_cursor'', QString ''a b'')]))))
       (query (facade_options (users_list (Some [(''page_size'', QNumber 100), (''start_cursor'', QString ''a b'')]))))
     = Returns ''https://proxy.example.com/v1/users?page_size=100&start_cursor=a+b'' \<and>
   buildURL (local_config :: unit NotionClientConfig)
       (path (facade_options (databases_retrieve sample_uuid)))
       (query (facade_options (databases_retrieve sample_uuid)))
     = Returns ''http://127.0.0.1:8080/v1/databases/59833787-2cf9-4fdf-8782-e53db20768a5'' \<and>
   buildURL (default_config :: unit NotionClientConfig)
       (path (facade_options (databases_retrieve sample_uuid)))
       (query (facade_options (databases_retrieve sample_uuid)))
     = Returns ''https://api.notion.com/v1/databases/59833787-2cf9-4fdf-8782-e53db20768a5''"
proof -
  have b1: "parse_base (string_or (baseURL (proxy_config :: unit NotionClientConfig))
              ''https://api.notion.com/v1'') =
     Returns \<lparr>url_scheme = ''https'', url_host = ''proxy.example.com'', url_port = None,
              url_path = [''notion'', ''v1''], url_query = None, url_fragment = None\<rparr>"
    by (simp add: proxy_config_def string_or_def parse_base_proxy)
  have b2: "parse_base (string_or (baseURL (default_config :: unit NotionClientConfig))
              ''https://api.notion.com/v1'') =
     Returns \<lparr>url_scheme = ''https'', url_host = ''api.notion.com'', url_port = None,
              url_path = [''v1''], url_query = None, url_fragment = None\<rparr>"
    by (simp add: default_config_def string_or_def parse_base_default)
  have b3: "parse_base (string_or (baseURL (local_config :: unit NotionClientConfig))
              ''https://api.notion.com/v1'') =
     Returns \<lparr>url_scheme = ''http'', url_host = ''127.0.0.1'', url_port = Some 8080,
              url_path = [''mock'', ''v1''], url_query = Some ''x=1'', url_fragment = None\<rparr>"
    by (simp add: local_config_def string_or_def parse_base_local)
  have d: "decimal 8080 = ''8080''"
    by (simp add: char_of_def bit_0)
  have i: "list_all plain_char (call_id (databases_retrieve sample_uuid))"
    by (simp add: sample_uuid_plain)
  have j: "list_all plain_char
             (call_id (users_list (Some [(''page_size'', QNumber 100), (''start_cursor'', QString ''a b'')])))"
    by simp
  have q: "query_string (Some [(''page_size'', QNumber 100), (''start_cursor'', QString ''a b'')]) =
             Returns ''?page_size=100&start_cursor=a+b''"
    by code_simp
  show ?thesis
    using facade_url_discards_base_path [OF b1 i] facade_url_discards_base_path [OF b1 j]
      facade_url_discards_base_path [OF b3 i] facade_url_discards_base_path [OF b2 i] q d
    by (simp add: origin_def sample_uuid_def map_result_def query_string_def)
qed

end
